theory Spec2Isabelle
  imports Complex_Main "HOL-Library.Monad_Syntax"
begin

section \<open>Week3/coding\_assistant.py: data\<close>

text \<open>
  A tool call as the model API returns it: \<open>tool_call.id\<close> and
  \<open>tool_call.function.name\<close>, \<open>tool_call.function.arguments\<close>. The field \<open>id\<close> is
  \<open>call_id\<close> here and \<open>function\<close> is \<open>func\<close>, since both words are taken in Isabelle.
\<close>

record tool_function =
  name :: string
  arguments :: string

record tool_call =
  call_id :: string
  func :: tool_function

text \<open>
  The Python values that occur in a message: \<open>None\<close>, a \<open>str\<close>, and the list of tool calls.
  A message dictionary is a map from keys to such values; \<open>d.get(k)\<close> is \<open>None\<close> for a key
  that is not there.
\<close>

datatype pyval = PyNone | PyStr string | PyToolCalls "tool_call list"

type_synonym dict = "string \<rightharpoonup> pyval"

definition get :: "dict \<Rightarrow> string \<Rightarrow> pyval" where
  "get d k = (case d k of None \<Rightarrow> PyNone | Some v \<Rightarrow> v)"

fun truthy :: "pyval \<Rightarrow> bool" where
  "truthy PyNone = False"
| "truthy (PyStr s) = (s \<noteq> [])"
| "truthy (PyToolCalls tcs) = (tcs \<noteq> [])"

text \<open>
  The response object of the API client (the SDK's \<open>ChatCompletionMessage\<close>): \<open>role\<close> is
  required, \<open>content\<close> and \<open>tool_calls\<close> are optional fields whose default is \<open>None\<close>, and
  the SDK's models keep any further field the server sent (\<open>extra\<close>). A field is either
  unset, and then reads as its default, or given a value (which may be \<open>None\<close>).
\<close>

datatype 'a field = Unset | Given 'a

fun attr :: "'a option field \<Rightarrow> 'a option" where
  "attr Unset = None"
| "attr (Given v) = v"

record chat_completion_message =
  role :: string
  content :: "string option field"
  tool_calls :: "tool_call list option field"
  extra :: dict

definition declared_fields :: "string set" where
  "declared_fields = {''role'', ''content'', ''tool_calls''}"

fun str_or_none :: "string option \<Rightarrow> pyval" where
  "str_or_none None = PyNone"
| "str_or_none (Some s) = PyStr s"

fun calls_or_none :: "tool_call list option \<Rightarrow> pyval" where
  "calls_or_none None = PyNone"
| "calls_or_none (Some tcs) = PyToolCalls tcs"

text \<open>
  \<open>message.model_dump(exclude_unset=True)\<close>: the dictionary of the fields that were set.
\<close>

definition model_dump :: "chat_completion_message \<Rightarrow> dict" where
  "model_dump m =
     (let d0 = (extra m |` (- declared_fields))(''role'' \<mapsto> PyStr (role m));
          d1 = (case content m of Unset \<Rightarrow> d0 | Given c \<Rightarrow> d0(''content'' \<mapsto> str_or_none c));
          d2 = (case tool_calls m of Unset \<Rightarrow> d1
                | Given t \<Rightarrow> d1(''tool_calls'' \<mapsto> calls_or_none t))
      in d2)"

text \<open>
  What \<open>serialize_message\<close> is given: an object that has \<open>model_dump\<close>, or a dictionary.
\<close>

datatype message = Obj chat_completion_message | Rec dict

section \<open>serialize\_message\<close>

text \<open>
  Lines 29 to 54. The first equation is the branch \<open>hasattr(message, 'model_dump')\<close>, the
  second the branch of the dictionaries.
\<close>

fun serialize_message :: "message \<Rightarrow> dict" where
  "serialize_message (Obj message) =
     (let msg_dict = model_dump message;
          serialized = [''role'' \<mapsto> get msg_dict ''role'', ''content'' \<mapsto> get msg_dict ''content''];
          serialized = (if ''tool_calls'' \<in> dom msg_dict
                        then serialized(''tool_calls'' \<mapsto> the (msg_dict ''tool_calls''))
                        else serialized)
      in serialized)"
| "serialize_message (Rec message) =
     (let serialized = [''role'' \<mapsto> get message ''role'', ''content'' \<mapsto> get message ''content''];
          serialized = (if ''tool_calls'' \<in> dom message
                        then serialized(''tool_calls'' \<mapsto> the (message ''tool_calls''))
                        else serialized);
          serialized = (if ''tool_call_id'' \<in> dom message
                        then serialized(''tool_call_id'' \<mapsto> the (message ''tool_call_id''))
                        else serialized);
          serialized = (if ''name'' \<in> dom message
                        then serialized(''name'' \<mapsto> the (message ''name''))
                        else serialized)
      in serialized)"

definition canonical_keys :: "string set" where
  "canonical_keys = {''role'', ''content'', ''tool_calls'', ''tool_call_id'', ''name''}"

section \<open>The hosted model API and the effects of a turn\<close>

text \<open>
  An exception is the message \<open>str(e)\<close> that the code formats. The code catches
  \<open>Exception\<close> only; interrupts of the interpreter are outside this model.
\<close>

datatype exn = Exception (str: string)

datatype client = Groq (api_key: string)

record tool_schema =
  schema_type :: string
  schema_name :: string
  schema_description :: string
  schema_properties :: "string list"
  schema_required :: "string list"

text \<open>
  The keyword arguments of \<open>client.chat.completions.create\<close>. An argument that is
  \<open>None\<close> or not passed is \<open>None\<close> here.
\<close>

record request =
  req_model :: string
  req_messages :: "dict list"
  req_temperature :: real
  req_tools :: "tool_schema list option"
  req_tool_choice :: "string option"

text \<open>
  What the program does to the outside, in order: the requests it sends to the API and the
  messages it shows. Layout calls (chat bubbles, spinners, expanders, the replay of the
  history) change no state and are left out.
\<close>

datatype event =
    Create request
  | St_error string
  | St_warning string
  | St_success string
  | St_markdown string
  | St_info pyval
  | St_stop

text \<open>
  The API is outside the program: a call either raises or returns the messages of
  \<open>response.choices\<close>, and may change the outside world \<open>'w\<close>. A registered tool is a
  function of no arguments that raises or returns a value.
\<close>

type_synonym 'w api = "client \<Rightarrow> request \<Rightarrow> 'w \<Rightarrow> (exn + chat_completion_message list) \<times> 'w"

type_synonym 'w tool = "'w \<Rightarrow> (exn + pyval) \<times> 'w"

text \<open>
  \<open>st.session_state\<close> (the Message Store \<open>messages\<close> and the key typed into the sidebar)
  with the outside world and the effects so far.
\<close>

record 'w state =
  session_messages :: "dict list"
  session_groq_api_key :: "string option"
  world :: 'w
  trace :: "event list"

definition emit :: "event \<Rightarrow> 'w state \<Rightarrow> 'w state" where
  "emit ev s = s\<lparr>trace := trace s @ [ev]\<rparr>"

definition append_message :: "dict \<Rightarrow> 'w state \<Rightarrow> 'w state" where
  "append_message m s = s\<lparr>session_messages := session_messages s @ [m]\<rparr>"

definition DEFAULT_MODEL :: string where
  "DEFAULT_MODEL = ''llama3-8b-8192''"

definition EVALUATION_MODEL :: string where
  "EVALUATION_MODEL = ''llama3-8b-8192''"

fun truthy_str :: "string option \<Rightarrow> bool" where
  "truthy_str None = False"
| "truthy_str (Some s) = (s \<noteq> [])"

section \<open>get\_groq\_client and the sidebar\<close>

text \<open>
  Lines 13 to 23. \<open>os.environ\<close> is the argument \<open>environ\<close>; \<open>not api_key\<close> holds for
  \<open>None\<close> and for the empty string.
\<close>

definition get_groq_client :: "(string \<rightharpoonup> string) \<Rightarrow> 'w state \<Rightarrow> client option \<times> 'w state" where
  "get_groq_client environ s =
     (let api_key = environ ''GROQ_API_KEY'';
          api_key = (if \<not> truthy_str api_key \<and> session_groq_api_key s \<noteq> None
                     then session_groq_api_key s else api_key)
      in if \<not> truthy_str api_key
         then (None, emit (St_warning ''Groq API Key not found. Please enter it in the sidebar.'') s)
         else (Some (Groq (the api_key)), s))"

text \<open>
  The credential part of the sidebar (lines 133 to 145): \<open>api_key_provided\<close>, and the
  typed key stored in the session. The text input is shown only when the variable is not in the environment.
\<close>

definition sidebar :: "(string \<rightharpoonup> string) \<Rightarrow> string \<Rightarrow> 'w state \<Rightarrow> bool \<times> 'w state" where
  "sidebar environ groq_api_key_input s =
     (if ''GROQ_API_KEY'' \<in> dom environ
      then (True, emit (St_success ''Groq API Key found in environment variables.'') s)
      else if groq_api_key_input \<noteq> []
           then (True, s\<lparr>session_groq_api_key := Some groq_api_key_input\<rparr>)
           else (False, s))"

text \<open>
  Line 174, after the sidebar:
  \<open>groq_client = get_groq_client() if api_key_provided else None\<close>.
\<close>

definition initialization :: "(string \<rightharpoonup> string) \<Rightarrow> string \<Rightarrow> 'w state \<Rightarrow> client option \<times> 'w state" where
  "initialization environ groq_api_key_input s =
     (case sidebar environ groq_api_key_input s of
        (api_key_provided, s) \<Rightarrow>
          if api_key_provided then get_groq_client environ s else (None, s))"

section \<open>run\_conversation and evaluate\_response\<close>

text \<open>
  Lines 58 to 95 and 97 to 122. The prompts are the strings of the source, with the
  indentation that the triple-quoted literals carry.
\<close>

definition system_prompt_content :: string where
  "system_prompt_content =
     ''You are a specialized Coding Assistant AI with access to previous conversation history.\<newline>'' @
     ''        Your primary function is to help users with programming and coding-related questions.\<newline>'' @
     ''        \<newline>'' @
     ''        You have access to the entire conversation history and should use it to provide context-aware responses.\<newline>'' @
     ''        Remember all previous interactions and function calls made during this conversation.\<newline>'' @
     ''        \<newline>'' @
     ''        Strictly adhere to the following rules:\<newline>'' @
     ''        1. ONLY answer questions directly related to coding, programming languages, algorithms, data structures, software development tools, and concepts.\<newline>'' @
     ''        2. If the user asks a question NOT related to coding, politely refuse to answer.\<newline>'' @
     ''        3. Provide clear, concise, and accurate coding explanations or code snippets.\<newline>'' @
     ''        4. Use the get_current_datetime function when needed for time-sensitive coding questions.\<newline>'' @
     ''        5. Reference previous conversation context when answering follow-up questions.\<newline>'' @
     ''        ''"

definition system_prompt :: dict where
  "system_prompt = [''role'' \<mapsto> PyStr ''system'', ''content'' \<mapsto> PyStr system_prompt_content]"

text \<open>
  The \<open>try\<close> blocks cover the call and \<open>response.choices[0].message\<close>: an empty list
  of choices raises \<open>IndexError\<close> there, and is caught with the rest.
\<close>

definition first_choice :: "exn + chat_completion_message list \<Rightarrow> exn + chat_completion_message" where
  "first_choice outcome =
     (case outcome of
        Inl e \<Rightarrow> Inl e
      | Inr [] \<Rightarrow> Inl (Exception ''list index out of range'')
      | Inr (message # _) \<Rightarrow> Inr message)"

definition conversation_request ::
  "message list \<Rightarrow> string \<Rightarrow> tool_schema list option \<Rightarrow> string \<Rightarrow> request" where
  "conversation_request messages model tools tool_choice =
     (let api_messages = system_prompt # map serialize_message messages
      in \<lparr>req_model = model, req_messages = api_messages, req_temperature = 0.7,
          req_tools = tools, req_tool_choice = Some tool_choice\<rparr>)"

definition run_conversation ::
  "'w api \<Rightarrow> client \<Rightarrow> message list \<Rightarrow> string \<Rightarrow> tool_schema list option \<Rightarrow> string \<Rightarrow> 'w state
     \<Rightarrow> chat_completion_message option \<times> 'w state" where
  "run_conversation api client messages model tools tool_choice s =
     (let request = conversation_request messages model tools tool_choice
      in case api client request (world s) of
           (outcome, w) \<Rightarrow>
             (let s = emit (Create request) (s\<lparr>world := w\<rparr>)
              in case first_choice outcome of
                   Inl e \<Rightarrow> (None, emit (St_error (''Error during conversation: '' @ str e)) s)
                 | Inr message \<Rightarrow> (Some message, s)))"

definition eval_system_prompt_content :: "string \<Rightarrow> string \<Rightarrow> string" where
  \<open>eval_system_prompt_content user_query assistant_response =
     ''Evaluate the assistant's response:\<newline>'' @
     ''        User Query: "'' @ user_query @ ''"\<newline>'' @
     ''        Assistant Response: "'' @ assistant_response @ ''"\<newline>'' @
     ''\<newline>'' @
     ''        Criteria:\<newline>'' @
     ''        1. **Coding Relevance:** Was the response coding-related? (Yes/No)\<newline>'' @
     ''        2. **Helpfulness:** If relevant, how helpful? (1-5 or NA)\<newline>'' @
     ''        3. **Refusal Appropriateness:** If irrelevant, did the assistant refuse properly? (Yes/No/NA)\<newline>'' @
     ''\<newline>'' @
     ''        Provide evaluation starting with "Evaluation:".\<newline>'' @
     ''        ''\<close>

definition evaluation_request :: "string \<Rightarrow> string \<Rightarrow> string \<Rightarrow> request" where
  "evaluation_request user_query assistant_response model =
     (let eval_system_prompt =
            [''role'' \<mapsto> PyStr ''system'',
             ''content'' \<mapsto> PyStr (eval_system_prompt_content user_query assistant_response)]
      in \<lparr>req_model = model, req_messages = [eval_system_prompt], req_temperature = 0.1,
          req_tools = None, req_tool_choice = None\<rparr>)"

definition evaluate_response ::
  "'w api \<Rightarrow> client \<Rightarrow> string \<Rightarrow> string \<Rightarrow> string \<Rightarrow> 'w state \<Rightarrow> pyval \<times> 'w state" where
  "evaluate_response api client user_query assistant_response model s =
     (let request = evaluation_request user_query assistant_response model
      in case api client request (world s) of
           (outcome, w) \<Rightarrow>
             (let s = emit (Create request) (s\<lparr>world := w\<rparr>)
              in case first_choice outcome of
                   Inl e \<Rightarrow> (PyStr (''Evaluation failed: '' @ str e), s)
                 | Inr message \<Rightarrow> (str_or_none (attr (content message)), s)))"

section \<open>get\_current\_datetime\<close>

text \<open>
  Lines 25 to 27. \<open>datetime.now()\<close> reads the clock of the outside world and gives a naive datetime.
  \<open>isoformat()\<close> prints it as \<open>YYYY-MM-DDTHH:MM:SS\<close>, followed by \<open>.ffffff\<close> when the
  microsecond is not zero. \<open>zero_padded w n\<close> is the format \<open>%0wd\<close> for \<open>n < 10 ^ w\<close>, which
  the ranges of the fields of a datetime give.
\<close>

record datetime =
  year :: nat
  month :: nat
  day :: nat
  hour :: nat
  minute :: nat
  second :: nat
  microsecond :: nat

definition is_leap :: "nat \<Rightarrow> bool" where
  "is_leap y = (y mod 4 = 0 \<and> (y mod 100 \<noteq> 0 \<or> y mod 400 = 0))"

definition days_in_month :: "nat \<Rightarrow> nat \<Rightarrow> nat" where
  "days_in_month y m =
     (if m = 2 then (if is_leap y then 29 else 28)
      else if m = 4 \<or> m = 6 \<or> m = 9 \<or> m = 11 then 30 else 31)"

definition valid_datetime :: "datetime \<Rightarrow> bool" where
  "valid_datetime d =
     (1 \<le> year d \<and> year d \<le> 9999 \<and> 1 \<le> month d \<and> month d \<le> 12
      \<and> 1 \<le> day d \<and> day d \<le> days_in_month (year d) (month d)
      \<and> hour d < 24 \<and> minute d < 60 \<and> second d < 60 \<and> microsecond d < 1000000)"

definition digit_char :: "nat \<Rightarrow> char" where
  "digit_char n = char_of (48 + n)"

fun zero_padded :: "nat \<Rightarrow> nat \<Rightarrow> string" where
  "zero_padded 0 n = []"
| "zero_padded (Suc w) n = digit_char (n div 10 ^ w mod 10) # zero_padded w n"

definition isoformat :: "datetime \<Rightarrow> string" where
  "isoformat d =
     zero_padded 4 (year d) @ ''-'' @ zero_padded 2 (month d) @ ''-'' @ zero_padded 2 (day d) @ ''T'' @
     zero_padded 2 (hour d) @ '':'' @ zero_padded 2 (minute d) @ '':'' @ zero_padded 2 (second d) @
     (if microsecond d \<noteq> 0 then ''.'' @ zero_padded 6 (microsecond d) else [])"

text \<open>
  \<open>json.dumps\<close> of a dictionary from strings to strings, with the default separators and
  \<open>ensure_ascii\<close>: every character outside the printable ASCII range is escaped. A
  \<open>char\<close> is a code point below 256 here.
\<close>

definition hex_digit :: "nat \<Rightarrow> char" where
  "hex_digit n = ''0123456789abcdef'' ! n"

definition escape_char :: "char \<Rightarrow> string" where
  \<open>escape_char c =
     (if c = CHR 0x22 then [CHR 0x5C, CHR 0x22]
      else if c = CHR 0x5C then [CHR 0x5C, CHR 0x5C]
      else if c = CHR 0x0A then [CHR 0x5C, CHR ''n'']
      else if c = CHR 0x0D then [CHR 0x5C, CHR ''r'']
      else if c = CHR 0x09 then [CHR 0x5C, CHR ''t'']
      else if c = CHR 0x08 then [CHR 0x5C, CHR ''b'']
      else if c = CHR 0x0C then [CHR 0x5C, CHR ''f'']
      else if (of_char c :: nat) < 32 \<or> 126 < (of_char c :: nat)
           then [CHR 0x5C, CHR ''u'', CHR ''0'', CHR ''0'',
                 hex_digit (of_char c div 16), hex_digit (of_char c mod 16)]
      else [c])\<close>

definition encode_basestring_ascii :: "string \<Rightarrow> string" where
  "encode_basestring_ascii s = [CHR 0x22] @ concat (map escape_char s) @ [CHR 0x22]"

fun join :: "string \<Rightarrow> string list \<Rightarrow> string" where
  "join sep [] = []"
| "join sep [x] = x"
| "join sep (x # y # ys) = x @ sep @ join sep (y # ys)"

definition json_dumps :: "(string \<times> string) list \<Rightarrow> string" where
  "json_dumps items =
     ''{'' @ join '', '' (map (\<lambda>(k, v). encode_basestring_ascii k @ '': '' @ encode_basestring_ascii v) items) @ ''}''"

definition get_current_datetime :: "('w \<Rightarrow> datetime \<times> 'w) \<Rightarrow> 'w tool" where
  "get_current_datetime now w =
     (case now w of
        (dt, w') \<Rightarrow> (Inr (PyStr (json_dumps [(''current_datetime'', isoformat dt)])), w'))"

section \<open>The tool registry and the handler of a user input\<close>

definition tools_schema :: "tool_schema list" where
  "tools_schema =
     [\<lparr>schema_type = ''function'', schema_name = ''get_current_datetime'',
       schema_description = ''Get the current date and time'',
       schema_properties = [], schema_required = []\<rparr>]"

text \<open>
  One round of the loop over \<open>response_message.tool_calls\<close> (lines 250 to 272). The registry
  \<open>available_tools\<close> is a global of the script and a parameter here; the script's own
  registry is defined after the handler. A name that is not
  in the registry does nothing; a tool that raises gives the message with the error text.
\<close>

definition tool_message :: "string \<Rightarrow> string \<Rightarrow> pyval \<Rightarrow> dict" where
  "tool_message tool_call_id function_name function_response =
     [''tool_call_id'' \<mapsto> PyStr tool_call_id, ''role'' \<mapsto> PyStr ''tool'',
      ''name'' \<mapsto> PyStr function_name, ''content'' \<mapsto> function_response]"

definition dispatch_tool_call :: "(string \<rightharpoonup> 'w tool) \<Rightarrow> tool_call \<Rightarrow> 'w state \<Rightarrow> 'w state" where
  "dispatch_tool_call available_tools tool_call s =
     (let function_name = name (func tool_call);
          tool_call_id = call_id tool_call
      in if function_name \<in> dom available_tools
         then (case the (available_tools function_name) (world s) of
                 (Inr function_response, w) \<Rightarrow>
                   append_message (tool_message tool_call_id function_name function_response)
                     (s\<lparr>world := w\<rparr>)
               | (Inl e, w) \<Rightarrow>
                   append_message (tool_message tool_call_id function_name (PyStr (''Error: '' @ str e)))
                     (s\<lparr>world := w\<rparr>))
         else s)"

fun dispatch_tool_calls :: "(string \<rightharpoonup> 'w tool) \<Rightarrow> tool_call list \<Rightarrow> 'w state \<Rightarrow> 'w state" where
  "dispatch_tool_calls available_tools [] s = s"
| "dispatch_tool_calls available_tools (tool_call # rest) s =
     dispatch_tool_calls available_tools rest (dispatch_tool_call available_tools tool_call s)"

definition assistant_message :: "string \<Rightarrow> dict" where
  "assistant_message full_response_content =
     [''role'' \<mapsto> PyStr ''assistant'', ''content'' \<mapsto> PyStr full_response_content]"

text \<open>
  The reply of a response, with the message to store (lines 283 to 289 for the second
  completion, 292 to 298 for the first): \<open>if r and r.content\<close> sets
  \<open>full_response_content\<close> and \<open>assistant_message_for_state\<close> and shows the reply;
  otherwise both keep their initial values, the empty string and \<open>None\<close>.
\<close>

definition take_reply ::
  "chat_completion_message option \<Rightarrow> 'w state \<Rightarrow> string \<times> dict option \<times> 'w state" where
  "take_reply response s =
     (case response of
        None \<Rightarrow> ([], None, s)
      | Some r \<Rightarrow>
          if truthy (str_or_none (attr (content r)))
          then (let full_response_content = the (attr (content r))
                in (full_response_content, Some (assistant_message full_response_content),
                    emit (St_markdown full_response_content) s))
          else ([], None, s))"

text \<open>
  The two calls of \<open>run_conversation\<close> in a turn (lines 235 to 241 and 276 to 281),
  each over the whole Message Store: the
  first with the tool schema and \<open>tool_choice="auto"\<close>, the second without tools and
  with \<open>tool_choice="none"\<close>.
\<close>

definition first_completion ::
  "'w api \<Rightarrow> client \<Rightarrow> string \<Rightarrow> 'w state \<Rightarrow> chat_completion_message option \<times> 'w state" where
  "first_completion api groq_client selected_model s =
     run_conversation api groq_client (map Rec (session_messages s)) selected_model
       (Some tools_schema) ''auto'' s"

definition second_completion ::
  "'w api \<Rightarrow> client \<Rightarrow> string \<Rightarrow> 'w state \<Rightarrow> chat_completion_message option \<times> 'w state" where
  "second_completion api groq_client selected_model s =
     run_conversation api groq_client (map Rec (session_messages s)) selected_model
       None ''none'' s"

text \<open>
  The tool branch up to the second completion (lines 247 to 272): the assistant message
  with the tool calls is stored, then each call is dispatched.
\<close>

definition store_and_dispatch ::
  "(string \<rightharpoonup> 'w tool) \<Rightarrow> chat_completion_message \<Rightarrow> 'w state \<Rightarrow> 'w state" where
  "store_and_dispatch available_tools response_message s =
     (let tool_calls_message = serialize_message (Obj response_message);
          s = append_message tool_calls_message s
      in dispatch_tool_calls available_tools (the (attr (tool_calls response_message))) s)"

text \<open>
  The block under \<open>with st.spinner("Thinking...")\<close>: the first completion, then the tool
  branch with the second completion, or the direct reply.
\<close>

definition get_llm_response ::
  "'w api \<Rightarrow> (string \<rightharpoonup> 'w tool) \<Rightarrow> client \<Rightarrow> string \<Rightarrow> 'w state
     \<Rightarrow> string \<times> dict option \<times> 'w state" where
  "get_llm_response api available_tools groq_client selected_model s =
     (case first_completion api groq_client selected_model s of
        (None, s) \<Rightarrow> ([], None, s)
      | (Some response_message, s) \<Rightarrow>
          if truthy (calls_or_none (attr (tool_calls response_message)))
          then (let s = store_and_dispatch available_tools response_message s
                in case second_completion api groq_client selected_model s of
                     (final_response, s) \<Rightarrow> take_reply final_response s)
          else take_reply (Some response_message) s)"

text \<open>
  The block under \<open># Evaluate response\<close> (lines 301 to 315): the evaluation is attached and the assistant
  message appended, when there is a reply.
\<close>

definition evaluate_and_append ::
  "'w api \<Rightarrow> client \<Rightarrow> string \<Rightarrow> string \<times> dict option \<times> 'w state \<Rightarrow> 'w state" where
  "evaluate_and_append api groq_client prompt r =
     (case r of
        (full_response_content, assistant_message_for_state, s) \<Rightarrow>
          if full_response_content \<noteq> [] \<and> assistant_message_for_state \<noteq> None
             \<and> the assistant_message_for_state \<noteq> Map.empty
          then (case evaluate_response api groq_client prompt full_response_content
                       EVALUATION_MODEL s of
                  (evaluation, s) \<Rightarrow>
                    append_message ((the assistant_message_for_state)(''evaluation'' \<mapsto> evaluation))
                      (emit (St_info evaluation) s))
          else s)"

definition user_message :: "string \<Rightarrow> dict" where
  "user_message prompt = [''role'' \<mapsto> PyStr ''user'', ''content'' \<mapsto> PyStr prompt]"

definition add_user_message :: "string \<Rightarrow> 'w state \<Rightarrow> 'w state" where
  "add_user_message prompt s = emit (St_markdown prompt) (append_message (user_message prompt) s)"

text \<open>
  Lines 217 to 315. \<open>if prompt := st.chat_input(...)\<close>: nothing happens without a non-empty input; without
  a client the script shows an error and stops; otherwise the turn runs.
\<close>

definition handle_user_input ::
  "'w api \<Rightarrow> (string \<rightharpoonup> 'w tool) \<Rightarrow> client option \<Rightarrow> string \<Rightarrow> string option \<Rightarrow> 'w state
     \<Rightarrow> 'w state" where
  "handle_user_input api available_tools groq_client selected_model chat_input s =
     (if truthy_str chat_input
      then (let prompt = the chat_input
            in case groq_client of
                 None \<Rightarrow>
                   emit St_stop
                     (emit (St_error ''Groq client not initialized. Please provide API key.'') s)
               | Some client \<Rightarrow>
                   evaluate_and_append api client prompt
                     (get_llm_response api available_tools client selected_model
                        (add_user_message prompt s)))
      else s)"

text \<open>
  The registry of the script (lines 181 to 183), over the clock that
  \<open>get_current_datetime\<close> reads.
\<close>

definition available_tools :: "('w \<Rightarrow> datetime \<times> 'w) \<Rightarrow> (string \<rightharpoonup> 'w tool)" where
  "available_tools now = [''get_current_datetime'' \<mapsto> get_current_datetime now]"

section \<open>Reading the tool result back\<close>

text \<open>
  What a reader of the tool message does with its content: \<open>json_loads\<close> reads a JSON
  object whose members are strings (white space between the tokens, the two-character
  escapes; it refuses everything else, so what it accepts is JSON), and
  \<open>parse_iso8601\<close> reads a timestamp \<open>YYYY-MM-DDTHH:MM:SS[.ffffff]\<close> and checks the
  calendar.
\<close>

definition is_ws :: "char \<Rightarrow> bool" where
  "is_ws c = (c = CHR 0x20 \<or> c = CHR 0x09 \<or> c = CHR 0x0A \<or> c = CHR 0x0D)"

definition unescape :: "char \<Rightarrow> char option" where
  \<open>unescape c =
     (if c = CHR 0x22 then Some (CHR 0x22)
      else if c = CHR 0x5C then Some (CHR 0x5C)
      else if c = CHR ''/'' then Some (CHR ''/'')
      else if c = CHR ''b'' then Some (CHR 0x08)
      else if c = CHR ''f'' then Some (CHR 0x0C)
      else if c = CHR ''n'' then Some (CHR 0x0A)
      else if c = CHR ''r'' then Some (CHR 0x0D)
      else if c = CHR ''t'' then Some (CHR 0x09)
      else None)\<close>

type_synonym members = "(string \<times> string) list"

datatype json_state =
    Start
  | Opened
  | In_key members string bool
  | After_key members string
  | Before_value members string
  | In_value members string string bool
  | After_value members
  | After_comma members
  | Closed members

fun json_step :: "json_state \<Rightarrow> char \<Rightarrow> json_state option" where
  "json_step Start c =
     (if is_ws c then Some Start else if c = CHR ''{'' then Some Opened else None)"
| "json_step Opened c =
     (if is_ws c then Some Opened
      else if c = CHR 0x22 then Some (In_key [] [] False)
      else if c = CHR ''}'' then Some (Closed [])
      else None)"
| "json_step (In_key ms k esc) c =
     (if esc then map_option (\<lambda>x. In_key ms (x # k) False) (unescape c)
      else if c = CHR 0x22 then Some (After_key ms (rev k))
      else if c = CHR 0x5C then Some (In_key ms k True)
      else if (of_char c :: nat) < 32 then None
      else Some (In_key ms (c # k) False))"
| "json_step (After_key ms k) c =
     (if is_ws c then Some (After_key ms k)
      else if c = CHR '':'' then Some (Before_value ms k)
      else None)"
| "json_step (Before_value ms k) c =
     (if is_ws c then Some (Before_value ms k)
      else if c = CHR 0x22 then Some (In_value ms k [] False)
      else None)"
| "json_step (In_value ms k v esc) c =
     (if esc then map_option (\<lambda>x. In_value ms k (x # v) False) (unescape c)
      else if c = CHR 0x22 then Some (After_value (ms @ [(k, rev v)]))
      else if c = CHR 0x5C then Some (In_value ms k v True)
      else if (of_char c :: nat) < 32 then None
      else Some (In_value ms k (c # v) False))"
| "json_step (After_value ms) c =
     (if is_ws c then Some (After_value ms)
      else if c = CHR '','' then Some (After_comma ms)
      else if c = CHR ''}'' then Some (Closed ms)
      else None)"
| "json_step (After_comma ms) c =
     (if is_ws c then Some (After_comma ms)
      else if c = CHR 0x22 then Some (In_key ms [] False)
      else None)"
| "json_step (Closed ms) c = (if is_ws c then Some (Closed ms) else None)"

fun json_run :: "json_state \<Rightarrow> string \<Rightarrow> json_state option" where
  "json_run st [] = Some st"
| "json_run st (c # cs) = (case json_step st c of None \<Rightarrow> None | Some st' \<Rightarrow> json_run st' cs)"

definition json_loads :: "string \<Rightarrow> members option" where
  "json_loads s = (case json_run Start s of Some (Closed ms) \<Rightarrow> Some ms | _ \<Rightarrow> None)"

definition is_digit :: "char \<Rightarrow> bool" where
  "is_digit c = (48 \<le> (of_char c :: nat) \<and> (of_char c :: nat) \<le> 57)"

definition digit_val :: "char \<Rightarrow> nat" where
  "digit_val c = of_char c - 48"

fun read_digits :: "nat \<Rightarrow> nat \<Rightarrow> string \<Rightarrow> (nat \<times> string) option" where
  "read_digits 0 acc s = Some (acc, s)"
| "read_digits (Suc w) acc [] = None"
| "read_digits (Suc w) acc (c # s) =
     (if is_digit c then read_digits w (acc * 10 + digit_val c) s else None)"

fun expect :: "char \<Rightarrow> string \<Rightarrow> string option" where
  "expect c [] = None"
| "expect c (x # xs) = (if x = c then Some xs else None)"

definition parse_iso8601 :: "string \<Rightarrow> datetime option" where
  "parse_iso8601 s = do {
     (y, s) \<leftarrow> read_digits 4 0 s;
     s \<leftarrow> expect (CHR ''-'') s;
     (m, s) \<leftarrow> read_digits 2 0 s;
     s \<leftarrow> expect (CHR ''-'') s;
     (d, s) \<leftarrow> read_digits 2 0 s;
     s \<leftarrow> expect (CHR ''T'') s;
     (hh, s) \<leftarrow> read_digits 2 0 s;
     s \<leftarrow> expect (CHR '':'') s;
     (mm, s) \<leftarrow> read_digits 2 0 s;
     s \<leftarrow> expect (CHR '':'') s;
     (ss, s) \<leftarrow> read_digits 2 0 s;
     (us, s) \<leftarrow> (if s = [] then Some (0, s)
                 else do { s \<leftarrow> expect (CHR ''.'') s; read_digits 6 0 s });
     (let dt = \<lparr>year = y, month = m, day = d, hour = hh, minute = mm, second = ss,
                microsecond = us\<rparr>
      in if s = [] \<and> valid_datetime dt then Some dt else None)
   }"

text \<open>
  The characters that \<open>json.dumps\<close> leaves as they are: printable ASCII without the
  double quote and the backslash.
\<close>

definition plain :: "char \<Rightarrow> bool" where
  "plain c = (32 \<le> (of_char c :: nat) \<and> (of_char c :: nat) \<le> 126
              \<and> (of_char c :: nat) \<noteq> 34 \<and> (of_char c :: nat) \<noteq> 92)"

section \<open>Closed instances: a scripted API, a clock that stands still, a tool that raises\<close>

text \<open>
  The world of the closed instances is the number of API calls made so far; the scripted
  API answers the n-th call with the n-th entry of its script, and raises when the script
  has run out.
\<close>

definition scripted_api :: "(exn + chat_completion_message list) list \<Rightarrow> nat api" where
  "scripted_api script client request n =
     (if n < length script then script ! n else Inl (Exception ''Connection error.''), Suc n)"

definition fixed_clock :: "datetime \<Rightarrow> 'w \<Rightarrow> datetime \<times> 'w" where
  "fixed_clock dt w = (dt, w)"

definition raising_tool :: "exn \<Rightarrow> 'w tool" where
  "raising_tool e w = (Inl e, w)"

definition new_session :: "'w \<Rightarrow> 'w state" where
  "new_session w = \<lparr>session_messages = [], session_groq_api_key = None, world = w, trace = []\<rparr>"

definition tool_request :: "string \<Rightarrow> string \<Rightarrow> chat_completion_message" where
  "tool_request tool_call_id function_name =
     \<lparr>role = ''assistant'', content = Given None,
      tool_calls = Given (Some [\<lparr>call_id = tool_call_id,
                                 func = \<lparr>name = function_name, arguments = ''{}''\<rparr>\<rparr>]),
      extra = Map.empty\<rparr>"

definition text_reply :: "string \<Rightarrow> chat_completion_message" where
  "text_reply text = \<lparr>role = ''assistant'', content = Given (Some text), tool_calls = Unset,
                      extra = Map.empty\<rparr>"

definition noon :: datetime where
  "noon = \<lparr>year = 2024, month = 2, day = 29, hour = 12, minute = 0, second = 0, microsecond = 0\<rparr>"

section \<open>Properties of serialize\_message\<close>

lemma serialize_Rec_apply:
  "serialize_message (Rec d) k =
     (if k = ''role'' then Some (get d ''role'')
      else if k = ''content'' then Some (get d ''content'')
      else if k = ''tool_calls'' \<or> k = ''tool_call_id'' \<or> k = ''name'' then d k
      else None)"
  by (simp add: Let_def dom_def)

lemma serialize_Obj_apply:
  "serialize_message (Obj m) k =
     (if k = ''role'' then Some (get (model_dump m) ''role'')
      else if k = ''content'' then Some (get (model_dump m) ''content'')
      else if k = ''tool_calls'' then model_dump m k
      else None)"
  by (simp add: Let_def dom_def)

declare serialize_message.simps [simp del]

lemma serialize_Obj_as_Rec:
  "serialize_message (Obj m) =
     serialize_message (Rec (model_dump m |` {''role'', ''content'', ''tool_calls''}))"
  by (rule ext) (simp add: serialize_Obj_apply serialize_Rec_apply get_def restrict_map_def)

lemma serialize_Rec_idem:
  "serialize_message (Rec (serialize_message (Rec d))) = serialize_message (Rec d)"
  by (rule ext) (simp add: serialize_Rec_apply get_def)

lemma serialize_Rec_dom:
  "dom (serialize_message (Rec d)) =
     {''role'', ''content''} \<union> (dom d \<inter> {''tool_calls'', ''tool_call_id'', ''name''})"
  unfolding dom_def set_eq_iff by (simp add: serialize_Rec_apply)

lemma serialize_Obj_dom:
  "dom (serialize_message (Obj m)) =
     {''role'', ''content''} \<union> (dom (model_dump m) \<inter> {''tool_calls''})"
  unfolding dom_def set_eq_iff by (simp add: serialize_Obj_apply)

text \<open>
  C1. Serialising is idempotent: the record that \<open>serialize_message\<close> returns, for an
  API object or for a plain record, is serialised to itself.
\<close>

theorem serialize_message_idempotent:
  "serialize_message (Rec (serialize_message m)) = serialize_message m"
proof (cases m)
  case (Obj x)
  then show ?thesis by (simp only: serialize_Obj_as_Rec serialize_Rec_idem)
next
  case (Rec d)
  then show ?thesis by (simp only: serialize_Rec_idem)
qed

text \<open>
  C2, as the claim states it, fails for an API object: a \<open>name\<close> that the object carries
  is in its dump and not in the serialised record.
\<close>

theorem serialize_message_object_drops_name:
  "''name'' \<in> dom (model_dump \<lparr>role = ''assistant'', content = Given (Some ''hi''),
                                 tool_calls = Unset, extra = [''name'' \<mapsto> PyStr ''helper'']\<rparr>)
   \<and> ''name'' \<notin> dom (serialize_message (Obj \<lparr>role = ''assistant'', content = Given (Some ''hi''),
                                 tool_calls = Unset, extra = [''name'' \<mapsto> PyStr ''helper'']\<rparr>))"
  by (simp add: serialize_Obj_dom) (simp add: model_dump_def declared_fields_def)

text \<open>
  C2, amended. The serialised record always has \<open>role\<close> and \<open>content\<close> (\<open>None\<close> when the
  input has none). A plain record keeps, besides, exactly those of \<open>tool_calls\<close>,
  \<open>tool_call_id\<close> and \<open>name\<close> that it has, with their values; an API object keeps only
  \<open>tool_calls\<close>, when it has it. No case fails.
\<close>

theorem serialize_message_retains:
  "serialize_message (Rec d) =
     [''role'' \<mapsto> get d ''role'', ''content'' \<mapsto> get d ''content'']
       ++ (d |` {''tool_calls'', ''tool_call_id'', ''name''})
   \<and> serialize_message (Obj m) =
     [''role'' \<mapsto> get (model_dump m) ''role'', ''content'' \<mapsto> get (model_dump m) ''content'']
       ++ (model_dump m |` {''tool_calls''})"
proof
  show "serialize_message (Rec d) =
     [''role'' \<mapsto> get d ''role'', ''content'' \<mapsto> get d ''content'']
       ++ (d |` {''tool_calls'', ''tool_call_id'', ''name''})"
    by (rule ext) (simp add: serialize_Rec_apply map_add_def restrict_map_def split: option.split)
  show "serialize_message (Obj m) =
     [''role'' \<mapsto> get (model_dump m) ''role'', ''content'' \<mapsto> get (model_dump m) ''content'']
       ++ (model_dump m |` {''tool_calls''})"
    by (rule ext) (simp add: serialize_Obj_apply map_add_def restrict_map_def split: option.split)
qed

text \<open>
  C3. The serialised record has no key outside \<open>role\<close>, \<open>content\<close>, \<open>tool_calls\<close>,
  \<open>tool_call_id\<close> and \<open>name\<close>.
\<close>

theorem serialize_message_projection:
  "dom (serialize_message m) \<subseteq> canonical_keys"
  by (cases m) (simp_all only: serialize_Rec_dom serialize_Obj_dom canonical_keys_def, blast+)

section \<open>The store and the trace through the steps of a turn\<close>

lemma emit_simps [simp]:
  "session_messages (emit ev s) = session_messages s"
  "session_groq_api_key (emit ev s) = session_groq_api_key s"
  "world (emit ev s) = world s"
  "trace (emit ev s) = trace s @ [ev]"
  by (simp_all add: emit_def)

lemma append_message_simps [simp]:
  "session_messages (append_message m s) = session_messages s @ [m]"
  "session_groq_api_key (append_message m s) = session_groq_api_key s"
  "world (append_message m s) = world s"
  "trace (append_message m s) = trace s"
  by (simp_all add: append_message_def)

lemma add_user_message_simps [simp]:
  "session_messages (add_user_message prompt s) = session_messages s @ [user_message prompt]"
  "world (add_user_message prompt s) = world s"
  "trace (add_user_message prompt s) = trace s @ [St_markdown prompt]"
  by (simp_all add: add_user_message_def)

lemma run_conversation_store:
  "session_messages (snd (run_conversation api c ms model tools tc s)) = session_messages s"
  by (simp add: run_conversation_def Let_def split: prod.splits sum.splits)

lemma run_conversation_trace:
  "\<exists>evs. trace (snd (run_conversation api c ms model tools tc s))
           = trace s @ Create (conversation_request ms model tools tc) # evs"
  by (simp add: run_conversation_def Let_def split: prod.splits sum.splits)

lemma run_conversation_raises:
  "first_choice (fst (api c (conversation_request ms model tools tc) (world s))) = Inl e
     \<Longrightarrow> fst (run_conversation api c ms model tools tc s) = None"
  by (cases "api c (conversation_request ms model tools tc) (world s)")
     (simp add: run_conversation_def Let_def)

lemma first_completion_store:
  "first_completion api c model s = (r, s1) \<Longrightarrow> session_messages s1 = session_messages s"
  using run_conversation_store[of api c "map Rec (session_messages s)" model "Some tools_schema" "''auto''" s]
  by (simp add: first_completion_def)

lemma second_completion_store:
  "session_messages (snd (second_completion api c model s)) = session_messages s"
  by (simp add: second_completion_def run_conversation_store)

lemma second_completion_trace:
  "Create (conversation_request (map Rec (session_messages s)) model None ''none'')
     \<in> set (trace (snd (second_completion api c model s)))"
  using run_conversation_trace[of api c "map Rec (session_messages s)" model None "''none''" s]
  by (auto simp: second_completion_def)

lemma take_reply_store:
  "session_messages (snd (snd (take_reply r s))) = session_messages s"
  by (simp add: take_reply_def Let_def split: option.splits)

lemma take_reply_trace:
  "set (trace s) \<subseteq> set (trace (snd (snd (take_reply r s))))"
  by (auto simp: take_reply_def Let_def split: option.splits)

lemma take_reply_Some:
  "take_reply r s = (full, Some am, s') \<Longrightarrow>
     full \<noteq> [] \<and> am = assistant_message full \<and> trace s' = trace s @ [St_markdown full]"
  by (auto simp: take_reply_def Let_def split: option.splits if_splits
      elim!: truthy.elims str_or_none.elims)

lemma dispatch_tool_call_unknown:
  "name (func tc) \<notin> dom tools \<Longrightarrow> dispatch_tool_call tools tc s = s"
  by (simp add: dispatch_tool_call_def Let_def)

lemma dispatch_tool_call_raises:
  "tools (name (func tc)) = Some body \<Longrightarrow> body (world s) = (Inl e, w) \<Longrightarrow>
     dispatch_tool_call tools tc s =
       append_message (tool_message (call_id tc) (name (func tc)) (PyStr (''Error: '' @ str e)))
         (s\<lparr>world := w\<rparr>)"
  by (simp add: dispatch_tool_call_def Let_def dom_def)

lemma dispatch_tool_call_returns:
  "tools (name (func tc)) = Some body \<Longrightarrow> body (world s) = (Inr v, w) \<Longrightarrow>
     dispatch_tool_call tools tc s =
       append_message (tool_message (call_id tc) (name (func tc)) v) (s\<lparr>world := w\<rparr>)"
  by (simp add: dispatch_tool_call_def Let_def dom_def)

lemma dispatch_tool_call_grows:
  "\<exists>ms. session_messages (dispatch_tool_call tools tc s) = session_messages s @ ms"
  by (simp add: dispatch_tool_call_def Let_def split: prod.splits sum.splits)

lemma dispatch_tool_call_trace:
  "trace (dispatch_tool_call tools tc s) = trace s"
  by (simp add: dispatch_tool_call_def Let_def split: prod.splits sum.splits)

lemma dispatch_tool_calls_append:
  "dispatch_tool_calls tools (xs @ ys) s = dispatch_tool_calls tools ys (dispatch_tool_calls tools xs s)"
  by (induction xs arbitrary: s) simp_all

lemma dispatch_tool_calls_grows:
  "\<exists>ms. session_messages (dispatch_tool_calls tools tcs s) = session_messages s @ ms"
proof (induction tcs arbitrary: s)
  case Nil
  then show ?case by simp
next
  case (Cons tc tcs)
  obtain ms1 where 1: "session_messages (dispatch_tool_call tools tc s) = session_messages s @ ms1"
    using dispatch_tool_call_grows by blast
  obtain ms2 where "session_messages (dispatch_tool_calls tools tcs (dispatch_tool_call tools tc s))
      = session_messages (dispatch_tool_call tools tc s) @ ms2"
    using Cons.IH by blast
  with 1 show ?case by simp
qed

lemma dispatch_tool_calls_trace:
  "trace (dispatch_tool_calls tools tcs s) = trace s"
  by (induction tcs arbitrary: s) (simp_all add: dispatch_tool_call_trace)

lemma store_and_dispatch_grows:
  "\<exists>ms. session_messages (store_and_dispatch tools rm s)
          = session_messages s @ serialize_message (Obj rm) # ms"
  using dispatch_tool_calls_grows[of tools "the (attr (tool_calls rm))"
          "append_message (serialize_message (Obj rm)) s"]
  by (auto simp: store_and_dispatch_def Let_def)

lemma evaluate_response_store:
  "session_messages (snd (evaluate_response api c q a model s)) = session_messages s"
  by (simp add: evaluate_response_def Let_def split: prod.splits sum.splits)

lemma evaluate_response_trace:
  "set (trace s) \<subseteq> set (trace (snd (evaluate_response api c q a model s)))"
  by (auto simp: evaluate_response_def Let_def split: prod.splits sum.splits)

lemma evaluate_response_raises:
  "first_choice (fst (api c (evaluation_request q a model) (world s))) = Inl e \<Longrightarrow>
     fst (evaluate_response api c q a model s) = PyStr (''Evaluation failed: '' @ str e)"
  by (cases "api c (evaluation_request q a model) (world s)")
     (simp add: evaluate_response_def Let_def)

lemma evaluate_and_append_no_reply:
  "evaluate_and_append api c prompt (full, None, s) = s"
  by (simp add: evaluate_and_append_def)

lemma assistant_message_not_empty: "assistant_message full \<noteq> Map.empty"
proof
  assume "assistant_message full = Map.empty"
  then have "assistant_message full ''role'' = None" by simp
  then show False by (simp add: assistant_message_def)
qed

lemma evaluate_and_append_reply:
  "full \<noteq> [] \<Longrightarrow>
   evaluate_and_append api c prompt (full, Some (assistant_message full), s) =
     (case evaluate_response api c prompt full EVALUATION_MODEL s of
        (evaluation, s') \<Rightarrow>
          append_message ((assistant_message full)(''evaluation'' \<mapsto> evaluation))
            (emit (St_info evaluation) s'))"
  by (simp add: evaluate_and_append_def assistant_message_not_empty)

lemma evaluate_and_append_trace:
  "set (trace (snd (snd x))) \<subseteq> set (trace (evaluate_and_append api c prompt x))"
proof (cases x)
  case (fields full am s)
  then show ?thesis
    using evaluate_response_trace[of s api c prompt full EVALUATION_MODEL]
    by (auto simp: evaluate_and_append_def split: prod.splits)
qed

lemma evaluate_and_append_grows:
  "set (session_messages (snd (snd x)))
     \<subseteq> set (session_messages (evaluate_and_append api c prompt x))"
proof (cases x)
  case (fields full am s)
  then show ?thesis
    using evaluate_response_store[of api c prompt full EVALUATION_MODEL s]
    by (auto simp: evaluate_and_append_def split: prod.splits)
qed

lemma tool_branch_store:
  "set (session_messages s2) \<subseteq>
     set (session_messages (evaluate_and_append api c prompt
            (take_reply (fst (second_completion api c model s2))
               (snd (second_completion api c model s2)))))"
  using evaluate_and_append_grows[of "take_reply (fst (second_completion api c model s2))
               (snd (second_completion api c model s2))" api c prompt]
  by (simp add: take_reply_store second_completion_store)

lemma tool_branch_trace:
  "Create (conversation_request (map Rec (session_messages s2)) model None ''none'')
     \<in> set (trace (evaluate_and_append api c prompt
            (take_reply (fst (second_completion api c model s2))
               (snd (second_completion api c model s2)))))"
  using evaluate_and_append_trace[of "take_reply (fst (second_completion api c model s2))
               (snd (second_completion api c model s2))" api c prompt]
    take_reply_trace[of "snd (second_completion api c model s2)" "fst (second_completion api c model s2)"]
    second_completion_trace[of s2 model api c]
  by blast

lemma get_llm_response_first_fails:
  assumes "fst (first_completion api c model s) = None"
  shows "get_llm_response api tools c model s = ([], None, snd (first_completion api c model s))"
proof (cases "first_completion api c model s")
  case (Pair r s')
  with assms have "r = None" by simp
  with Pair show ?thesis by (simp add: get_llm_response_def)
qed

lemma get_llm_response_tool_branch:
  assumes "first_completion api c model s = (Some rm, s1)"
    and "attr (tool_calls rm) = Some tcs" "tcs \<noteq> []"
  shows "get_llm_response api tools c model s =
           take_reply (fst (second_completion api c model (store_and_dispatch tools rm s1)))
             (snd (second_completion api c model (store_and_dispatch tools rm s1)))"
  using assms by (simp add: get_llm_response_def Let_def split: prod.splits)

lemma handle_user_input_turn:
  "prompt \<noteq> [] \<Longrightarrow>
     handle_user_input api tools (Some c) model (Some prompt) s =
       evaluate_and_append api c prompt
         (get_llm_response api tools c model (add_user_message prompt s))"
  by (simp add: handle_user_input_def)

lemma get_llm_response_reply:
  assumes "get_llm_response api tools c model s = (full, Some am, s1)"
  shows "full \<noteq> [] \<and> am = assistant_message full \<and> St_markdown full \<in> set (trace s1)"
proof (cases "first_completion api c model s")
  case (Pair r sa)
  show ?thesis
  proof (cases r)
    case None
    with Pair assms show ?thesis by (simp add: get_llm_response_def)
  next
    case (Some rm)
    show ?thesis
    proof (cases "truthy (calls_or_none (attr (tool_calls rm)))")
      case True
      with Pair Some assms
      have "take_reply (fst (second_completion api c model (store_and_dispatch tools rm sa)))
              (snd (second_completion api c model (store_and_dispatch tools rm sa)))
            = (full, Some am, s1)"
        by (simp add: get_llm_response_def Let_def split: prod.splits)
      from take_reply_Some[OF this] show ?thesis by simp
    next
      case False
      with Pair Some assms have "take_reply (Some rm) sa = (full, Some am, s1)"
        by (simp add: get_llm_response_def)
      from take_reply_Some[OF this] show ?thesis by simp
    qed
  qed
qed

lemma serialize_tool_calls:
  "attr (tool_calls rm) = Some tcs \<Longrightarrow>
     serialize_message (Obj rm) ''tool_calls'' = Some (PyToolCalls tcs)"
  by (cases "tool_calls rm") (simp_all add: serialize_Obj_apply model_dump_def Let_def split: field.splits)

lemma tool_message_serialized:
  "serialize_message (Rec (tool_message i n v)) = tool_message i n v"
  by (rule ext) (simp add: serialize_Rec_apply get_def tool_message_def)

lemma in_set_map_map: "x \<in> set xs \<Longrightarrow> f (g x) \<in> set (map f (map g xs))"
  by simp

lemma user_message_serialized:
  "serialize_message (Rec (user_message prompt)) = user_message prompt"
  by (rule ext) (simp add: serialize_Rec_apply get_def user_message_def)

lemma serialize_Obj_idem:
  "serialize_message (Rec (serialize_message (Obj m))) = serialize_message (Obj m)"
  by (simp only: serialize_Obj_as_Rec serialize_Rec_idem)

lemma serialize_role:
  "serialize_message (Obj rm) ''role'' = Some (PyStr (role rm))"
  by (simp add: serialize_Obj_apply model_dump_def get_def Let_def split: field.splits)

lemma dispatch_tool_calls_all_unknown:
  "\<forall>tc\<in>set tcs. name (func tc) \<notin> dom tools \<Longrightarrow> dispatch_tool_calls tools tcs s = s"
  by (induction tcs arbitrary: s) (simp_all add: dispatch_tool_call_unknown)

section \<open>Properties of a turn\<close>

text \<open>
  C4. When the first completion gives no result, the turn leaves in the Message Store
  what was there and the user message, and nothing else: its length grows by one.
\<close>

theorem first_completion_failure_keeps_store:
  assumes "prompt \<noteq> []"
    and "fst (first_completion api c model (add_user_message prompt s)) = None"
  shows "session_messages (handle_user_input api tools (Some c) model (Some prompt) s)
           = session_messages s @ [user_message prompt]
         \<and> length (session_messages (handle_user_input api tools (Some c) model (Some prompt) s))
           = length (session_messages s) + 1"
proof -
  let ?s0 = "add_user_message prompt s"
  obtain s1 where f: "first_completion api c model ?s0 = (None, s1)"
    using assms(2) by (cases "first_completion api c model ?s0") simp
  have "get_llm_response api tools c model ?s0 = ([], None, s1)"
    using get_llm_response_first_fails[OF assms(2), of tools] f by simp
  then have "handle_user_input api tools (Some c) model (Some prompt) s = s1"
    using assms(1) by (simp add: handle_user_input_turn evaluate_and_append_no_reply)
  moreover have "session_messages s1 = session_messages ?s0"
    using first_completion_store[OF f] .
  ultimately show ?thesis by simp
qed

theorem first_completion_failure_keeps_store_witness:
  "fst (first_completion (scripted_api [Inl (Exception ''timeout'')]) (Groq ''gsk'') DEFAULT_MODEL
          (add_user_message ''What is a binary search tree?'' (new_session 0))) = None
   \<and> session_messages
         (handle_user_input (scripted_api [Inl (Exception ''timeout'')])
            (available_tools (fixed_clock noon)) (Some (Groq ''gsk'')) DEFAULT_MODEL
            (Some ''What is a binary search tree?'') (new_session 0))
       = [user_message ''What is a binary search tree?'']"
proof -
  have h: "fst (first_completion (scripted_api [Inl (Exception ''timeout'')]) (Groq ''gsk'')
             DEFAULT_MODEL (add_user_message ''What is a binary search tree?'' (new_session 0))) = None"
    by (simp add: first_completion_def run_conversation_raises scripted_api_def first_choice_def
        new_session_def)
  show ?thesis
    using h first_completion_failure_keeps_store[OF _ h, of "available_tools (fixed_clock noon)"]
    by (simp add: new_session_def)
qed

text \<open>
  C5. A registered tool that raises does not end the turn. The call appends one message:
  its role is \<open>tool\<close>, its \<open>tool_call_id\<close> and \<open>name\<close> are those of the request, and its
  content is \<open>Error: \<close> followed by the text of the exception, which is not empty. The
  second completion is then requested, without tools and with \<open>tool_choice="none"\<close>,
  over the system prompt and the store that holds this message; the message goes out
  in the request as it is, and it is still in the store when the turn ends.
\<close>

theorem tool_exception_becomes_tool_message:
  assumes "prompt \<noteq> []"
    and "first_completion api c model (add_user_message prompt s) = (Some rm, s1)"
    and "attr (tool_calls rm) = Some (pre @ tc # post)"
    and "tools (name (func tc)) = Some body"
    and "body (world (dispatch_tool_calls tools pre
                 (append_message (serialize_message (Obj rm)) s1))) = (Inl e, w)"
  shows "session_messages (dispatch_tool_call tools tc
           (dispatch_tool_calls tools pre (append_message (serialize_message (Obj rm)) s1)))
         = session_messages
             (dispatch_tool_calls tools pre (append_message (serialize_message (Obj rm)) s1))
           @ [[''tool_call_id'' \<mapsto> PyStr (call_id tc), ''role'' \<mapsto> PyStr ''tool'',
               ''name'' \<mapsto> PyStr (name (func tc)),
               ''content'' \<mapsto> PyStr (''Error: '' @ str e)]]
       \<and> ''Error: '' @ str e \<noteq> []
       \<and> Create \<lparr>req_model = model,
                  req_messages = system_prompt #
                    map serialize_message
                      (map Rec (session_messages (store_and_dispatch tools rm s1))),
                  req_temperature = 0.7, req_tools = None, req_tool_choice = Some ''none''\<rparr>
           \<in> set (trace (handle_user_input api tools (Some c) model (Some prompt) s))
       \<and> [''tool_call_id'' \<mapsto> PyStr (call_id tc), ''role'' \<mapsto> PyStr ''tool'',
            ''name'' \<mapsto> PyStr (name (func tc)),
            ''content'' \<mapsto> PyStr (''Error: '' @ str e)]
           \<in> set (map serialize_message
                     (map Rec (session_messages (store_and_dispatch tools rm s1))))
       \<and> [''tool_call_id'' \<mapsto> PyStr (call_id tc), ''role'' \<mapsto> PyStr ''tool'',
            ''name'' \<mapsto> PyStr (name (func tc)),
            ''content'' \<mapsto> PyStr (''Error: '' @ str e)]
           \<in> set (session_messages (handle_user_input api tools (Some c) model (Some prompt) s))"
proof -
  let ?sp = "dispatch_tool_calls tools pre (append_message (serialize_message (Obj rm)) s1)"
  let ?tm = "tool_message (call_id tc) (name (func tc)) (PyStr (''Error: '' @ str e))"
  let ?s2 = "store_and_dispatch tools rm s1"
  have step: "dispatch_tool_call tools tc ?sp = append_message ?tm (?sp\<lparr>world := w\<rparr>)"
    using assms(4,5) by (rule dispatch_tool_call_raises)
  then have appended: "session_messages (dispatch_tool_call tools tc ?sp)
      = session_messages ?sp @ [?tm]"
    by simp
  have "?s2 = dispatch_tool_calls tools post (dispatch_tool_call tools tc ?sp)"
    using assms(3) by (simp add: store_and_dispatch_def Let_def dispatch_tool_calls_append)
  moreover obtain ms where
    "session_messages (dispatch_tool_calls tools post (dispatch_tool_call tools tc ?sp))
       = session_messages (dispatch_tool_call tools tc ?sp) @ ms"
    using dispatch_tool_calls_grows by blast
  ultimately have "session_messages ?s2 = (session_messages ?sp @ [?tm]) @ ms"
    using appended by simp
  then have stored: "?tm \<in> set (session_messages ?s2)" by simp
  have "serialize_message (Rec ?tm) \<in> set (map serialize_message (map Rec (session_messages ?s2)))"
    using stored by (rule in_set_map_map)
  then have sent: "?tm \<in> set (map serialize_message (map Rec (session_messages ?s2)))"
    by (simp only: tool_message_serialized)
  have turn: "handle_user_input api tools (Some c) model (Some prompt) s =
      evaluate_and_append api c prompt
        (take_reply (fst (second_completion api c model ?s2))
           (snd (second_completion api c model ?s2)))"
    using assms(1) get_llm_response_tool_branch[OF assms(2,3), of tools]
    by (simp add: handle_user_input_turn)
  have requested: "Create (conversation_request (map Rec (session_messages ?s2)) model None ''none'')
      \<in> set (trace (handle_user_input api tools (Some c) model (Some prompt) s))"
    unfolding turn by (rule tool_branch_trace)
  have kept: "?tm \<in> set (session_messages (handle_user_input api tools (Some c) model (Some prompt) s))"
    unfolding turn using stored tool_branch_store by blast
  show ?thesis
    by (intro conjI)
       (rule appended[unfolded tool_message_def], simp,
        rule requested[unfolded conversation_request_def Let_def],
        rule sent[unfolded tool_message_def], rule kept[unfolded tool_message_def])
qed

theorem tool_exception_becomes_tool_message_witness:
  "[''tool_call_id'' \<mapsto> PyStr ''call_1'', ''role'' \<mapsto> PyStr ''tool'',
    ''name'' \<mapsto> PyStr ''get_current_datetime'',
    ''content'' \<mapsto> PyStr ''Error: clock unavailable'']
     \<in> set (session_messages
         (handle_user_input
            (scripted_api [Inr [tool_request ''call_1'' ''get_current_datetime''],
                           Inr [text_reply ''The clock is unavailable.'']])
            [''get_current_datetime'' \<mapsto> raising_tool (Exception ''clock unavailable'')]
            (Some (Groq ''gsk'')) DEFAULT_MODEL (Some ''What time is it?'') (new_session 0)))"
proof -
  let ?api = "scripted_api [Inr [tool_request ''call_1'' ''get_current_datetime''],
                           Inr [text_reply ''The clock is unavailable.'']]"
  let ?tools = "[''get_current_datetime'' \<mapsto> raising_tool (Exception ''clock unavailable'')]
                  :: string \<rightharpoonup> nat tool"
  let ?s0 = "add_user_message ''What time is it?'' (new_session (0::nat))"
  let ?rm = "tool_request ''call_1'' ''get_current_datetime''"
  let ?tc = "\<lparr>call_id = ''call_1'', func = \<lparr>name = ''get_current_datetime'', arguments = ''{}''\<rparr>\<rparr>"
  let ?s1 = "snd (first_completion ?api (Groq ''gsk'') DEFAULT_MODEL ?s0)"
  let ?sp = "dispatch_tool_calls ?tools [] (append_message (serialize_message (Obj ?rm)) ?s1)"
  have "fst (first_completion ?api (Groq ''gsk'') DEFAULT_MODEL ?s0) = Some ?rm"
    by (simp add: first_completion_def run_conversation_def scripted_api_def first_choice_def
        Let_def new_session_def)
  then have f: "first_completion ?api (Groq ''gsk'') DEFAULT_MODEL ?s0 = (Some ?rm, ?s1)"
    by (simp add: prod_eq_iff)
  have calls: "attr (tool_calls ?rm) = Some ([] @ ?tc # [])"
    by (simp add: tool_request_def)
  have reg: "?tools (name (func ?tc)) = Some (raising_tool (Exception ''clock unavailable''))"
    by simp
  have raises: "raising_tool (Exception ''clock unavailable'') (world ?sp)
                  = (Inl (Exception ''clock unavailable''), world ?sp)"
    by (simp add: raising_tool_def)
  have "''What time is it?'' \<noteq> []" by simp
  from tool_exception_becomes_tool_message[OF this f calls reg raises]
  have "[''tool_call_id'' \<mapsto> PyStr (call_id ?tc), ''role'' \<mapsto> PyStr ''tool'',
         ''name'' \<mapsto> PyStr (name (func ?tc)),
         ''content'' \<mapsto> PyStr (''Error: '' @ str (Exception ''clock unavailable''))]
        \<in> set (session_messages
            (handle_user_input ?api ?tools (Some (Groq ''gsk'')) DEFAULT_MODEL
               (Some ''What time is it?'') (new_session 0)))"
    by (elim conjE)
  then show ?thesis by simp
qed

text \<open>
  C10. A tool call whose function is not in the registry is passed over: the call changes
  nothing and appends no message, so the store after the loop is the store that the loop
  over the other calls gives, and no tool message is there at all when none of the other
  calls is registered either. The assistant message, whose \<open>tool_calls\<close> are those of the
  response, is in the store right after the user message. The second completion is
  requested without tools and with \<open>tool_choice="none"\<close> over the system prompt, the
  earlier messages, the user message, that assistant message and the tool messages of
  the other calls.
\<close>

theorem unknown_tool_is_skipped:
  assumes "prompt \<noteq> []"
    and "first_completion api c model (add_user_message prompt s) = (Some rm, s1)"
    and "attr (tool_calls rm) = Some (pre @ tc # post)"
    and "name (func tc) \<notin> dom tools"
  shows "dispatch_tool_call tools tc s' = s'
       \<and> store_and_dispatch tools rm s1
           = dispatch_tool_calls tools (pre @ post) (append_message (serialize_message (Obj rm)) s1)
       \<and> (\<exists>ms. session_messages (store_and_dispatch tools rm s1)
                  = session_messages s
                    @ [''role'' \<mapsto> PyStr ''user'', ''content'' \<mapsto> PyStr prompt]
                    # serialize_message (Obj rm) # ms
              \<and> ((\<forall>tc'\<in>set (pre @ post). name (func tc') \<notin> dom tools) \<longrightarrow> ms = [])
              \<and> Create \<lparr>req_model = model,
                         req_messages = system_prompt #
                           map serialize_message (map Rec (session_messages s))
                           @ [''role'' \<mapsto> PyStr ''user'', ''content'' \<mapsto> PyStr prompt]
                           # serialize_message (Obj rm)
                           # map serialize_message (map Rec ms),
                         req_temperature = 0.7, req_tools = None,
                         req_tool_choice = Some ''none''\<rparr>
                  \<in> set (trace (handle_user_input api tools (Some c) model (Some prompt) s)))
       \<and> serialize_message (Obj rm) ''tool_calls'' = Some (PyToolCalls (pre @ tc # post))
       \<and> serialize_message (Obj rm) ''role'' = Some (PyStr (role rm))"
proof -
  let ?s2 = "store_and_dispatch tools rm s1"
  let ?a = "serialize_message (Obj rm)"
  have skip: "dispatch_tool_call tools tc s' = s'" for s'
    using assms(4) by (rule dispatch_tool_call_unknown)
  have loop: "?s2 = dispatch_tool_calls tools (pre @ post) (append_message ?a s1)"
    using assms(3) by (simp add: store_and_dispatch_def Let_def dispatch_tool_calls_append skip)
  have s1: "session_messages s1 = session_messages s @ [user_message prompt]"
    using first_completion_store[OF assms(2)] by simp
  obtain ms where ms: "session_messages ?s2 = session_messages s1 @ ?a # ms"
    using store_and_dispatch_grows by blast
  then have store: "session_messages ?s2 = session_messages s @ user_message prompt # ?a # ms"
    using s1 by simp
  have none: "ms = []" if "\<forall>tc'\<in>set (pre @ post). name (func tc') \<notin> dom tools"
  proof -
    have "?s2 = append_message ?a s1"
      unfolding loop using that by (rule dispatch_tool_calls_all_unknown)
    then have "session_messages ?s2 = session_messages s1 @ [?a]" by simp
    with ms show ?thesis by simp
  qed
  have turn: "handle_user_input api tools (Some c) model (Some prompt) s =
      evaluate_and_append api c prompt
        (take_reply (fst (second_completion api c model ?s2))
           (snd (second_completion api c model ?s2)))"
    using assms(1) get_llm_response_tool_branch[OF assms(2,3), of tools]
    by (simp add: handle_user_input_turn)
  have "Create (conversation_request (map Rec (session_messages ?s2)) model None ''none'')
      \<in> set (trace (handle_user_input api tools (Some c) model (Some prompt) s))"
    unfolding turn by (rule tool_branch_trace)
  moreover have "conversation_request (map Rec (session_messages ?s2)) model None ''none''
      = \<lparr>req_model = model,
         req_messages = system_prompt #
           map serialize_message (map Rec (session_messages s))
           @ user_message prompt # ?a # map serialize_message (map Rec ms),
         req_temperature = 0.7, req_tools = None, req_tool_choice = Some ''none''\<rparr>"
    unfolding store conversation_request_def Let_def
    by (simp add: user_message_serialized serialize_Obj_idem)
  ultimately have requested: "Create \<lparr>req_model = model,
         req_messages = system_prompt #
           map serialize_message (map Rec (session_messages s))
           @ user_message prompt # ?a # map serialize_message (map Rec ms),
         req_temperature = 0.7, req_tools = None, req_tool_choice = Some ''none''\<rparr>
      \<in> set (trace (handle_user_input api tools (Some c) model (Some prompt) s))"
    by simp
  have third: "\<exists>ms. session_messages ?s2
                  = session_messages s
                    @ [''role'' \<mapsto> PyStr ''user'', ''content'' \<mapsto> PyStr prompt] # ?a # ms
              \<and> ((\<forall>tc'\<in>set (pre @ post). name (func tc') \<notin> dom tools) \<longrightarrow> ms = [])
              \<and> Create \<lparr>req_model = model,
                         req_messages = system_prompt #
                           map serialize_message (map Rec (session_messages s))
                           @ [''role'' \<mapsto> PyStr ''user'', ''content'' \<mapsto> PyStr prompt]
                           # ?a # map serialize_message (map Rec ms),
                         req_temperature = 0.7, req_tools = None,
                         req_tool_choice = Some ''none''\<rparr>
                  \<in> set (trace (handle_user_input api tools (Some c) model (Some prompt) s))"
    by (rule exI[of _ ms], intro conjI impI)
       (rule store[unfolded user_message_def], erule none, rule requested[unfolded user_message_def])
  show ?thesis
    by (intro conjI) (rule skip, rule loop, rule third, rule serialize_tool_calls[OF assms(3)],
        rule serialize_role)
qed

theorem unknown_tool_is_skipped_witness:
  "Create \<lparr>req_model = DEFAULT_MODEL,
           req_messages =
             [system_prompt,
              [''role'' \<mapsto> PyStr ''user'', ''content'' \<mapsto> PyStr ''What is the weather?''],
              serialize_message (Obj (tool_request ''call_7'' ''get_weather''))],
           req_temperature = 0.7, req_tools = None, req_tool_choice = Some ''none''\<rparr>
     \<in> set (trace
         (handle_user_input
            (scripted_api [Inr [tool_request ''call_7'' ''get_weather''],
                           Inr [text_reply ''I cannot tell.'']])
            (available_tools (fixed_clock noon))
            (Some (Groq ''gsk'')) DEFAULT_MODEL (Some ''What is the weather?'') (new_session 0)))
   \<and> session_messages
       (store_and_dispatch (available_tools (fixed_clock noon))
          (tool_request ''call_7'' ''get_weather'')
          (snd (first_completion
                 (scripted_api [Inr [tool_request ''call_7'' ''get_weather''],
                                Inr [text_reply ''I cannot tell.'']])
                 (Groq ''gsk'') DEFAULT_MODEL
                 (add_user_message ''What is the weather?'' (new_session 0)))))
     = [[''role'' \<mapsto> PyStr ''user'', ''content'' \<mapsto> PyStr ''What is the weather?''],
        serialize_message (Obj (tool_request ''call_7'' ''get_weather''))]"
proof -
  let ?api = "scripted_api [Inr [tool_request ''call_7'' ''get_weather''],
                            Inr [text_reply ''I cannot tell.'']]"
  let ?tools = "available_tools (fixed_clock noon) :: string \<rightharpoonup> nat tool"
  let ?s0 = "add_user_message ''What is the weather?'' (new_session (0::nat))"
  let ?rm = "tool_request ''call_7'' ''get_weather''"
  let ?tc = "\<lparr>call_id = ''call_7'', func = \<lparr>name = ''get_weather'', arguments = ''{}''\<rparr>\<rparr>"
  let ?s1 = "snd (first_completion ?api (Groq ''gsk'') DEFAULT_MODEL ?s0)"
  have "fst (first_completion ?api (Groq ''gsk'') DEFAULT_MODEL ?s0) = Some ?rm"
    by (simp add: first_completion_def run_conversation_def scripted_api_def first_choice_def
        Let_def new_session_def)
  then have f: "first_completion ?api (Groq ''gsk'') DEFAULT_MODEL ?s0 = (Some ?rm, ?s1)"
    by (simp add: prod_eq_iff)
  have calls: "attr (tool_calls ?rm) = Some ([] @ ?tc # [])"
    by (simp add: tool_request_def)
  have unknown: "name (func ?tc) \<notin> dom ?tools"
    by (simp add: available_tools_def)
  have p: "''What is the weather?'' \<noteq> []" by simp
  have e: "session_messages (new_session (0::nat)) = []" by (simp add: new_session_def)
  note inst = unknown_tool_is_skipped[OF p f calls unknown, where ?s' = "?s1"]
  from inst obtain ms where
    store: "session_messages (store_and_dispatch ?tools ?rm ?s1)
           = session_messages (new_session (0::nat))
             @ [''role'' \<mapsto> PyStr ''user'', ''content'' \<mapsto> PyStr ''What is the weather?'']
             # serialize_message (Obj ?rm) # ms"
    and none: "(\<forall>tc'\<in>set (([]::tool_call list) @ []). name (func tc') \<notin> dom ?tools)
                 \<longrightarrow> ms = []"
    and requested: "Create \<lparr>req_model = DEFAULT_MODEL,
           req_messages = system_prompt #
             map serialize_message (map Rec (session_messages (new_session (0::nat))))
             @ [''role'' \<mapsto> PyStr ''user'', ''content'' \<mapsto> PyStr ''What is the weather?'']
             # serialize_message (Obj ?rm) # map serialize_message (map Rec ms),
           req_temperature = 0.7, req_tools = None, req_tool_choice = Some ''none''\<rparr>
        \<in> set (trace (handle_user_input ?api ?tools (Some (Groq ''gsk'')) DEFAULT_MODEL
                         (Some ''What is the weather?'') (new_session 0)))"
    by (elim conjE exE) (rule that)
  from none have ms: "ms = []" by simp
  show ?thesis
    using store requested unfolding ms e by simp
qed

text \<open>
  C6. When the evaluation call fails after a reply was produced, \<open>evaluate_response\<close>
  returns the text \<open>Evaluation failed: \<close> followed by the text of the exception. The
  reply, which is not empty, was shown before the evaluation started, and the turn ends
  with the assistant message appended: its content is the reply and its evaluation is
  that text.
\<close>

theorem evaluation_failure_keeps_reply:
  assumes "prompt \<noteq> []"
    and "get_llm_response api tools c model (add_user_message prompt s) = (full, Some am, s1)"
    and "first_choice (fst (api c (evaluation_request prompt full EVALUATION_MODEL) (world s1)))
           = Inl e"
  shows "fst (evaluate_response api c prompt full EVALUATION_MODEL s1)
           = PyStr (''Evaluation failed: '' @ str e)
       \<and> full \<noteq> []
       \<and> St_markdown full \<in> set (trace s1)
       \<and> session_messages (handle_user_input api tools (Some c) model (Some prompt) s)
           = session_messages s1 @
             [[''role'' \<mapsto> PyStr ''assistant'', ''content'' \<mapsto> PyStr full,
               ''evaluation'' \<mapsto> PyStr (''Evaluation failed: '' @ str e)]]"
proof -
  have reply: "full \<noteq> []" "am = assistant_message full" "St_markdown full \<in> set (trace s1)"
    using get_llm_response_reply[OF assms(2)] by simp_all
  have marker: "fst (evaluate_response api c prompt full EVALUATION_MODEL s1)
                  = PyStr (''Evaluation failed: '' @ str e)"
    using assms(3) by (rule evaluate_response_raises)
  obtain ev s2 where ev: "evaluate_response api c prompt full EVALUATION_MODEL s1 = (ev, s2)"
    by (cases "evaluate_response api c prompt full EVALUATION_MODEL s1")
  have s2: "session_messages s2 = session_messages s1"
    using evaluate_response_store[of api c prompt full EVALUATION_MODEL s1] ev by simp
  have "handle_user_input api tools (Some c) model (Some prompt) s
          = append_message ((assistant_message full)(''evaluation'' \<mapsto> ev)) (emit (St_info ev) s2)"
    using assms(1,2) reply ev
    by (simp add: handle_user_input_turn evaluate_and_append_reply)
  then have "session_messages (handle_user_input api tools (Some c) model (Some prompt) s)
      = session_messages s1 @ [(assistant_message full)(''evaluation'' \<mapsto> ev)]"
    using s2 by simp
  moreover have "ev = PyStr (''Evaluation failed: '' @ str e)"
    using marker ev by simp
  ultimately show ?thesis
    using marker reply by (simp add: assistant_message_def)
qed

theorem evaluation_failure_keeps_reply_witness:
  "session_messages
     (handle_user_input
        (scripted_api [Inr [text_reply ''A tree in which every left child is smaller.''],
                       Inl (Exception ''rate limit'')])
        (available_tools (fixed_clock noon))
        (Some (Groq ''gsk'')) DEFAULT_MODEL (Some ''What is a binary search tree?'') (new_session 0))
   = [user_message ''What is a binary search tree?'',
      [''role'' \<mapsto> PyStr ''assistant'',
       ''content'' \<mapsto> PyStr ''A tree in which every left child is smaller.'',
       ''evaluation'' \<mapsto> PyStr ''Evaluation failed: rate limit'']]"
proof -
  let ?api = "scripted_api [Inr [text_reply ''A tree in which every left child is smaller.''],
                            Inl (Exception ''rate limit'')]"
  let ?tools = "available_tools (fixed_clock noon) :: string \<rightharpoonup> nat tool"
  let ?p = "''What is a binary search tree?''"
  let ?full = "''A tree in which every left child is smaller.''"
  let ?s0 = "add_user_message ?p (new_session (0::nat))"
  let ?r = "get_llm_response ?api ?tools (Groq ''gsk'') DEFAULT_MODEL ?s0"
  let ?s1 = "snd (snd ?r)"
  have r: "fst ?r = ?full" "fst (snd ?r) = Some (assistant_message ?full)"
    "world ?s1 = Suc 0" "session_messages ?s1 = [user_message ?p]"
    by (simp_all add: get_llm_response_def first_completion_def run_conversation_def
        scripted_api_def first_choice_def take_reply_def text_reply_def Let_def new_session_def)
  then have g: "?r = (?full, Some (assistant_message ?full), ?s1)"
    by (simp add: prod_eq_iff)
  have fails: "first_choice (fst (?api (Groq ''gsk'')
                 (evaluation_request ?p ?full EVALUATION_MODEL) (world ?s1)))
               = Inl (Exception ''rate limit'')"
    unfolding r(3) by (simp add: scripted_api_def first_choice_def)
  have p: "?p \<noteq> []" by simp
  from evaluation_failure_keeps_reply[OF p g fails]
  have "session_messages
          (handle_user_input ?api ?tools (Some (Groq ''gsk'')) DEFAULT_MODEL (Some ?p) (new_session 0))
        = session_messages ?s1 @
          [[''role'' \<mapsto> PyStr ''assistant'', ''content'' \<mapsto> PyStr ?full,
            ''evaluation'' \<mapsto> PyStr (''Evaluation failed: '' @ str (Exception ''rate limit''))]]"
    by (elim conjE)
  then show ?thesis unfolding r(4) by simp
qed

lemma evaluate_and_append_aborted:
  "fst (snd x) = None \<Longrightarrow> evaluate_and_append api c prompt x = snd (snd x)"
  by (cases x) (simp add: evaluate_and_append_def)

lemma get_llm_response_store:
  assumes "first_completion api c model s = (r1, s1)"
  shows "session_messages (snd (snd (get_llm_response api tools c model s))) =
           (case r1 of
              None \<Rightarrow> session_messages s
            | Some rm \<Rightarrow>
                if truthy (calls_or_none (attr (tool_calls rm)))
                then session_messages (store_and_dispatch tools rm s1)
                else session_messages s)"
proof (cases r1)
  case None
  with assms show ?thesis
    using first_completion_store[OF assms] by (simp add: get_llm_response_def)
next
  case (Some rm)
  show ?thesis
  proof (cases "truthy (calls_or_none (attr (tool_calls rm)))")
    case True
    with assms Some show ?thesis
      by (simp add: get_llm_response_def Let_def take_reply_store second_completion_store
          split: prod.splits)
         (metis second_completion_store snd_conv take_reply_store)
  next
    case False
    with assms Some show ?thesis
      using first_completion_store[OF assms]
      by (simp add: get_llm_response_def take_reply_store)
  qed
qed

text \<open>
  C8, as the claim states it, fails in the tool branch: the first completion asks for the
  tool, the second completion raises, and the store keeps the assistant entry with the
  tool calls (and the tool message) of the turn that was aborted.
\<close>

theorem aborted_tool_turn_keeps_assistant_entry:
  "session_messages
     (handle_user_input
        (scripted_api [Inr [tool_request ''call_1'' ''get_current_datetime''],
                       Inl (Exception ''timeout'')])
        (available_tools (fixed_clock noon))
        (Some (Groq ''gsk'')) DEFAULT_MODEL (Some ''What time is it?'') (new_session 0))
   = [user_message ''What time is it?'',
      serialize_message (Obj (tool_request ''call_1'' ''get_current_datetime'')),
      tool_message ''call_1'' ''get_current_datetime''
        (PyStr (json_dumps [(''current_datetime'', isoformat noon)]))]
   \<and> serialize_message (Obj (tool_request ''call_1'' ''get_current_datetime'')) ''role''
       = Some (PyStr ''assistant'')
   \<and> last (trace
       (handle_user_input
          (scripted_api [Inr [tool_request ''call_1'' ''get_current_datetime''],
                         Inl (Exception ''timeout'')])
          (available_tools (fixed_clock noon))
          (Some (Groq ''gsk'')) DEFAULT_MODEL (Some ''What time is it?'') (new_session 0)))
       = St_error ''Error during conversation: timeout''"
  by (simp add: handle_user_input_def get_llm_response_def first_completion_def
      second_completion_def run_conversation_def scripted_api_def first_choice_def
      store_and_dispatch_def dispatch_tool_call_def available_tools_def
      get_current_datetime_def fixed_clock_def take_reply_def evaluate_and_append_def
      tool_request_def Let_def new_session_def serialize_Obj_apply model_dump_def get_def)

text \<open>
  C8, amended. A turn that ends without a reply appends no assistant reply and no
  evaluation. When the first completion failed, or answered without tool calls and
  without content, the store is the old store and the user message. When the first
  completion asked for tools, the store is the one over which the second completion was
  requested: the old store, the user message, the assistant message with the tool calls,
  and the tool messages; they stay there.
\<close>

theorem aborted_turn_store:
  assumes "prompt \<noteq> []"
    and "first_completion api c model (add_user_message prompt s) = (r1, s1)"
    and "fst (snd (get_llm_response api tools c model (add_user_message prompt s))) = None"
  shows "session_messages (handle_user_input api tools (Some c) model (Some prompt) s) =
           (case r1 of
              None \<Rightarrow> session_messages s @ [user_message prompt]
            | Some rm \<Rightarrow>
                if truthy (calls_or_none (attr (tool_calls rm)))
                then session_messages (store_and_dispatch tools rm s1)
                else session_messages s @ [user_message prompt])
       \<and> (\<exists>ms. session_messages (store_and_dispatch tools rm' s1)
                = session_messages s @ user_message prompt # serialize_message (Obj rm') # ms)"
proof -
  let ?g = "get_llm_response api tools c model (add_user_message prompt s)"
  have "handle_user_input api tools (Some c) model (Some prompt) s = snd (snd ?g)"
    using assms(1,3) by (simp add: handle_user_input_turn evaluate_and_append_aborted)
  then have a: "session_messages (handle_user_input api tools (Some c) model (Some prompt) s) =
           (case r1 of
              None \<Rightarrow> session_messages s @ [user_message prompt]
            | Some rm \<Rightarrow>
                if truthy (calls_or_none (attr (tool_calls rm)))
                then session_messages (store_and_dispatch tools rm s1)
                else session_messages s @ [user_message prompt])"
    using get_llm_response_store[OF assms(2), of tools] by (simp split: option.split)
  obtain ms where "session_messages (store_and_dispatch tools rm' s1)
      = session_messages s1 @ serialize_message (Obj rm') # ms"
    using store_and_dispatch_grows by blast
  then have b: "\<exists>ms. session_messages (store_and_dispatch tools rm' s1)
      = session_messages s @ user_message prompt # serialize_message (Obj rm') # ms"
    using first_completion_store[OF assms(2)] by simp
  show ?thesis using a b by simp
qed

theorem aborted_turn_store_witness:
  "session_messages
     (handle_user_input
        (scripted_api [Inr [tool_request ''call_2'' ''get_current_datetime''],
                       Inr [text_reply []]])
        (available_tools (fixed_clock noon))
        (Some (Groq ''gsk'')) DEFAULT_MODEL (Some ''And now?'') (new_session 0))
   = session_messages
       (store_and_dispatch (available_tools (fixed_clock noon))
          (tool_request ''call_2'' ''get_current_datetime'')
          (snd (first_completion
                 (scripted_api [Inr [tool_request ''call_2'' ''get_current_datetime''],
                                Inr [text_reply []]])
                 (Groq ''gsk'') DEFAULT_MODEL (add_user_message ''And now?'' (new_session 0)))))"
proof -
  let ?api = "scripted_api [Inr [tool_request ''call_2'' ''get_current_datetime''],
                            Inr [text_reply []]]"
  let ?tools = "available_tools (fixed_clock noon) :: string \<rightharpoonup> nat tool"
  let ?s0 = "add_user_message ''And now?'' (new_session (0::nat))"
  let ?rm = "tool_request ''call_2'' ''get_current_datetime''"
  let ?s1 = "snd (first_completion ?api (Groq ''gsk'') DEFAULT_MODEL ?s0)"
  have "fst (first_completion ?api (Groq ''gsk'') DEFAULT_MODEL ?s0) = Some ?rm"
    by (simp add: first_completion_def run_conversation_def scripted_api_def first_choice_def
        Let_def new_session_def)
  then have f: "first_completion ?api (Groq ''gsk'') DEFAULT_MODEL ?s0 = (Some ?rm, ?s1)"
    by (simp add: prod_eq_iff)
  have none: "fst (snd (get_llm_response ?api ?tools (Groq ''gsk'') DEFAULT_MODEL ?s0)) = None"
    by (simp add: get_llm_response_def first_completion_def second_completion_def
        run_conversation_def scripted_api_def first_choice_def store_and_dispatch_def
        dispatch_tool_call_def available_tools_def get_current_datetime_def fixed_clock_def
        take_reply_def tool_request_def text_reply_def Let_def new_session_def)
  have p: "''And now?'' \<noteq> []" by simp
  have t: "truthy (calls_or_none (attr (tool_calls ?rm)))" by (simp add: tool_request_def)
  show ?thesis
    using aborted_turn_store[OF p f none, THEN conjunct1] t by simp
qed

section \<open>Properties of the credential and of the tool\<close>

text \<open>
  C9. The claim fails on the code when the variable is set to the empty string. The
  sidebar tests whether the variable is in the environment: it reports the key as found,
  takes it as provided and shows no input. \<open>get_groq_client\<close> tests the value: it takes
  the empty string as missing, warns that the key was not found and is to be entered in
  the sidebar, and constructs no client, so the user input that follows calls no API:
  the script shows an error and stops. A variable with a value that is not empty gives
  the client with that value.
\<close>

theorem empty_environment_key_gives_no_client:
  "''GROQ_API_KEY'' \<in> dom [''GROQ_API_KEY'' \<mapsto> '''']
   \<and> fst (sidebar [''GROQ_API_KEY'' \<mapsto> ''''] [] (new_session (0::nat))) = True
   \<and> fst (initialization [''GROQ_API_KEY'' \<mapsto> ''''] [] (new_session (0::nat))) = None
   \<and> trace (snd (initialization [''GROQ_API_KEY'' \<mapsto> ''''] [] (new_session (0::nat))))
       = [St_success ''Groq API Key found in environment variables.'',
          St_warning ''Groq API Key not found. Please enter it in the sidebar.'']
   \<and> trace (handle_user_input (scripted_api []) (available_tools (fixed_clock noon))
               (fst (initialization [''GROQ_API_KEY'' \<mapsto> ''''] [] (new_session 0)))
               DEFAULT_MODEL (Some ''What is a binary search tree?'')
               (snd (initialization [''GROQ_API_KEY'' \<mapsto> ''''] [] (new_session 0))))
       = [St_success ''Groq API Key found in environment variables.'',
          St_warning ''Groq API Key not found. Please enter it in the sidebar.'',
          St_error ''Groq client not initialized. Please provide API key.'',
          St_stop]
   \<and> session_messages
         (handle_user_input (scripted_api []) (available_tools (fixed_clock noon))
            (fst (initialization [''GROQ_API_KEY'' \<mapsto> ''''] [] (new_session 0)))
            DEFAULT_MODEL (Some ''What is a binary search tree?'')
            (snd (initialization [''GROQ_API_KEY'' \<mapsto> ''''] [] (new_session 0))))
       = []
   \<and> fst (initialization [''GROQ_API_KEY'' \<mapsto> ''gsk_env''] [] (new_session (0::nat)))
       = Some (Groq ''gsk_env'')"
  by (simp add: initialization_def sidebar_def get_groq_client_def handle_user_input_def
      new_session_def Let_def)

lemma digit_char_props: "d < 10 \<Longrightarrow> is_digit (digit_char d) \<and> digit_val (digit_char d) = d"
  by (simp add: is_digit_def digit_val_def digit_char_def)

lemma read_digits_zero_padded_mod:
  "read_digits w acc (zero_padded w n @ rest) = Some (acc * 10 ^ w + n mod 10 ^ w, rest)"
proof (induction w arbitrary: acc)
  case 0
  then show ?case by simp
next
  case (Suc w)
  have d: "n div 10 ^ w mod 10 < 10" by simp
  have "n mod 10 ^ Suc w = n mod (10 ^ w * 10)" by (simp add: mult.commute)
  also have "\<dots> = 10 ^ w * (n div 10 ^ w mod 10) + n mod 10 ^ w" by (rule mod_mult2_eq)
  finally have arith: "(acc * 10 + n div 10 ^ w mod 10) * 10 ^ w + n mod 10 ^ w
                 = acc * 10 ^ Suc w + n mod 10 ^ Suc w"
    by (simp add: algebra_simps)
  show ?case
    using digit_char_props[OF d] Suc.IH[of "acc * 10 + n div 10 ^ w mod 10"] arith
    by simp
qed

lemma read_digits_zero_padded:
  "n < 10 ^ w \<Longrightarrow> read_digits w 0 (zero_padded w n @ rest) = Some (n, rest)"
  by (simp add: read_digits_zero_padded_mod)

lemma read_digits_zero_padded_end:
  "n < 10 ^ w \<Longrightarrow> read_digits w 0 (zero_padded w n) = Some (n, [])"
  using read_digits_zero_padded[of n w "[]"] by simp

lemma parse_isoformat:
  assumes "valid_datetime d"
  shows "parse_iso8601 (isoformat d) = Some d"
proof -
  from assms have b: "year d < 10 ^ 4" "month d < 10 ^ 2" "day d < 10 ^ 2" "hour d < 10 ^ 2"
    "minute d < 10 ^ 2" "second d < 10 ^ 2" "microsecond d < 10 ^ 6"
    by (auto simp: valid_datetime_def days_in_month_def split: if_splits)
  note rd = b[THEN read_digits_zero_padded] b[THEN read_digits_zero_padded_end]
  show ?thesis
    unfolding parse_iso8601_def isoformat_def
    using assms by (simp add: rd Let_def) (cases d, auto)
qed

lemma plain_not_special:
  assumes "plain c"
  shows "c \<noteq> CHR 0x22" "c \<noteq> CHR 0x5C" "c \<noteq> CHR 0x0A" "c \<noteq> CHR 0x0D" "c \<noteq> CHR 0x09"
    "c \<noteq> CHR 0x08" "c \<noteq> CHR 0x0C" "\<not> (of_char c :: nat) < 32" "\<not> 126 < (of_char c :: nat)"
  using assms unfolding plain_def by auto

lemma escape_char_plain: "plain c \<Longrightarrow> escape_char c = [c]"
  by (simp add: escape_char_def plain_not_special)

lemma escape_plain: "\<forall>c\<in>set s. plain c \<Longrightarrow> concat (map escape_char s) = s"
  by (induction s) (simp_all add: escape_char_plain)

lemma encode_plain:
  "\<forall>c\<in>set s. plain c \<Longrightarrow> encode_basestring_ascii s = [CHR 0x22] @ s @ [CHR 0x22]"
  by (simp add: encode_basestring_ascii_def escape_plain)

lemma json_step_value_plain:
  "plain c \<Longrightarrow> json_step (In_value ms k v False) c = Some (In_value ms k (c # v) False)"
  by (simp add: plain_not_special)

lemma json_step_key_plain:
  "plain c \<Longrightarrow> json_step (In_key ms k False) c = Some (In_key ms (c # k) False)"
  by (simp add: plain_not_special)

lemma json_run_value_plain:
  "\<forall>c\<in>set s. plain c \<Longrightarrow>
     json_run (In_value ms k v False) (s @ rest) = json_run (In_value ms k (rev s @ v) False) rest"
  by (induction s arbitrary: v) (simp_all add: json_step_value_plain del: json_step.simps)

lemma json_run_key_plain:
  "\<forall>c\<in>set s. plain c \<Longrightarrow>
     json_run (In_key ms k False) (s @ rest) = json_run (In_key ms (rev s @ k) False) rest"
  by (induction s arbitrary: k) (simp_all add: json_step_key_plain del: json_step.simps)

lemma json_loads_dumps_single:
  assumes "\<forall>c\<in>set k. plain c" "\<forall>c\<in>set v. plain c"
  shows "json_loads (json_dumps [(k, v)]) = Some [(k, v)]"
proof -
  have "json_dumps [(k, v)] =
      ''{'' @ [CHR 0x22] @ k @ ([CHR 0x22] @ '': '' @ [CHR 0x22]) @ v @ ([CHR 0x22] @ ''}'')"
    using assms by (simp add: json_dumps_def encode_plain)
  then show ?thesis
    by (simp add: json_loads_def json_run_value_plain[OF assms(2)]
        json_run_key_plain[OF assms(1)] is_ws_def)
qed

lemma plain_digit_char: "d < 10 \<Longrightarrow> plain (digit_char d)"
  by (simp add: plain_def digit_char_def)

lemma plain_zero_padded: "\<forall>c\<in>set (zero_padded w n). plain c"
  by (induction w) (simp_all add: plain_digit_char)

lemma plain_isoformat: "\<forall>c\<in>set (isoformat d). plain c"
  using plain_zero_padded by (auto simp: isoformat_def plain_def)

lemma plain_current_datetime: "\<forall>c\<in>set ''current_datetime''. plain c"
  by (simp add: plain_def)

lemma digit_chars:
  "digit_char 0 = CHR ''0''" "digit_char (Suc 0) = CHR ''1''" "digit_char 2 = CHR ''2''"
  "digit_char 3 = CHR ''3''" "digit_char 4 = CHR ''4''" "digit_char 5 = CHR ''5''"
  "digit_char 6 = CHR ''6''" "digit_char 7 = CHR ''7''" "digit_char 8 = CHR ''8''"
  "digit_char 9 = CHR ''9''"
  by (simp_all add: digit_char_def char_of_def bit_Suc_0_iff)

lemma zero_padded_2:
  "zero_padded 2 n = [digit_char (n div 10 mod 10), digit_char (n mod 10)]"
  by (simp add: numeral_2_eq_2)

lemma zero_padded_4:
  "zero_padded 4 n = [digit_char (n div 1000 mod 10), digit_char (n div 100 mod 10),
                      digit_char (n div 10 mod 10), digit_char (n mod 10)]"
proof -
  have four: "(4::nat) = Suc (Suc (Suc (Suc 0)))" by simp
  show ?thesis unfolding four by simp
qed

text \<open>
  C7. \<open>get_current_datetime\<close> never raises. What it returns is read back as a JSON
  object with the one key \<open>current_datetime\<close>, whose value is the ISO-8601 text of the
  datetime that the clock gave, and that text is read back as that datetime. The
  dispatcher appends for a call of this tool one message: its role is \<open>tool\<close>, its
  \<open>tool_call_id\<close> is that of the request, its \<open>name\<close> is \<open>get_current_datetime\<close>, and its
  content is that string.
\<close>

theorem get_current_datetime_round_trip:
  assumes "now (world s) = (dt, w')" and "valid_datetime dt"
    and "name (func tc) = ''get_current_datetime''"
  shows "get_current_datetime now (world s)
           = (Inr (PyStr (json_dumps [(''current_datetime'', isoformat dt)])), w')
       \<and> json_loads (json_dumps [(''current_datetime'', isoformat dt)])
           = Some [(''current_datetime'', isoformat dt)]
       \<and> parse_iso8601 (isoformat dt) = Some dt
       \<and> session_messages (dispatch_tool_call (available_tools now) tc s)
           = session_messages s @
             [[''tool_call_id'' \<mapsto> PyStr (call_id tc), ''role'' \<mapsto> PyStr ''tool'',
               ''name'' \<mapsto> PyStr ''get_current_datetime'',
               ''content'' \<mapsto> PyStr (json_dumps [(''current_datetime'', isoformat dt)])]]
       \<and> get (last (session_messages (dispatch_tool_call (available_tools now) tc s))) ''content''
           = PyStr (json_dumps [(''current_datetime'', isoformat dt)])
       \<and> world (dispatch_tool_call (available_tools now) tc s) = w'"
proof -
  let ?c = "PyStr (json_dumps [(''current_datetime'', isoformat dt)])"
  have tool: "get_current_datetime now (world s) = (Inr ?c, w')"
    using assms(1) by (simp add: get_current_datetime_def)
  have json: "json_loads (json_dumps [(''current_datetime'', isoformat dt)])
      = Some [(''current_datetime'', isoformat dt)]"
    using plain_current_datetime plain_isoformat by (rule json_loads_dumps_single)
  have iso: "parse_iso8601 (isoformat dt) = Some dt"
    using assms(2) by (rule parse_isoformat)
  have reg: "available_tools now (name (func tc)) = Some (get_current_datetime now)"
    using assms(3) by (simp add: available_tools_def)
  have "dispatch_tool_call (available_tools now) tc s
      = append_message (tool_message (call_id tc) (name (func tc)) ?c) (s\<lparr>world := w'\<rparr>)"
    using reg tool by (rule dispatch_tool_call_returns)
  then have step: "dispatch_tool_call (available_tools now) tc s
      = append_message (tool_message (call_id tc) ''get_current_datetime'' ?c) (s\<lparr>world := w'\<rparr>)"
    using assms(3) by simp
  have appended: "session_messages (dispatch_tool_call (available_tools now) tc s)
      = session_messages s @ [tool_message (call_id tc) ''get_current_datetime'' ?c]"
    unfolding step by simp
  have "get (tool_message (call_id tc) ''get_current_datetime'' ?c) ''content'' = ?c"
    by (simp add: tool_message_def get_def)
  then have content: "get (last (session_messages (dispatch_tool_call (available_tools now) tc s)))
      ''content'' = ?c"
    unfolding appended by simp
  have w: "world (dispatch_tool_call (available_tools now) tc s) = w'"
    unfolding step by simp
  show ?thesis
    by (intro conjI)
       (rule tool, rule json, rule iso, rule appended[unfolded tool_message_def],
        rule content, rule w)
qed

theorem get_current_datetime_round_trip_witness:
  \<open>get_current_datetime (fixed_clock noon) (0::nat)
     = (Inr (PyStr ''{"current_datetime": "2024-02-29T12:00:00"}''), 0)
   \<and> json_loads ''{"current_datetime": "2024-02-29T12:00:00"}''
       = Some [(''current_datetime'', ''2024-02-29T12:00:00'')]
   \<and> parse_iso8601 ''2024-02-29T12:00:00'' = Some noon
   \<and> session_messages
         (dispatch_tool_call (available_tools (fixed_clock noon))
            \<lparr>call_id = ''call_1'',
               func = \<lparr>name = ''get_current_datetime'', arguments = ''{}''\<rparr>\<rparr>
            (new_session (0::nat)))
       = [[''tool_call_id'' \<mapsto> PyStr ''call_1'', ''role'' \<mapsto> PyStr ''tool'',
           ''name'' \<mapsto> PyStr ''get_current_datetime'',
           ''content'' \<mapsto> PyStr ''{"current_datetime": "2024-02-29T12:00:00"}'']]\<close>
proof -
  let ?s = "new_session (0::nat)"
  let ?tc = "\<lparr>call_id = ''call_1'', func = \<lparr>name = ''get_current_datetime'', arguments = ''{}''\<rparr>\<rparr>"
  have w: "world ?s = 0" by (simp add: new_session_def)
  have m: "session_messages ?s = []" by (simp add: new_session_def)
  have i: "call_id ?tc = ''call_1''" by simp
  have clock: "fixed_clock noon (world ?s) = (noon, 0)"
    by (simp add: fixed_clock_def new_session_def)
  have valid: "valid_datetime noon"
    by (simp add: valid_datetime_def noon_def days_in_month_def is_leap_def)
  have n: "name (func ?tc) = ''get_current_datetime''" by simp
  have iso: "isoformat noon = ''2024-02-29T12:00:00''"
    by (simp add: isoformat_def noon_def zero_padded_2 zero_padded_4 digit_chars)
  have dumps: \<open>json_dumps [(''current_datetime'', ''2024-02-29T12:00:00'')]
                 = ''{"current_datetime": "2024-02-29T12:00:00"}''\<close>
    by (simp add: json_dumps_def encode_basestring_ascii_def escape_char_def)
  note inst = get_current_datetime_round_trip[where now = "fixed_clock noon" and s = ?s
      and dt = noon and w' = 0 and tc = ?tc, OF clock valid n, unfolded iso dumps w m i append_Nil]
  from inst show ?thesis by (elim conjE) (intro conjI, assumption+)
qed

end
